theory Spec2Isabelle
  imports Main
begin

section \<open>The SecureCRT session importer (SecureCRT\_import\_sessions\_script.py)\<close>

text \<open>
  The script reads a delimited text file whose first line names the fields, turns every
  further line into a session of the terminal emulator, and collects the lines it could
  not import. This theory embeds \<^verbatim>\<open>ValidateFieldDesignations\<close>,
  \<^verbatim>\<open>SessionExists\<close>, \<^verbatim>\<open>ValidateSessionFolderComponent\<close>,
  \<^verbatim>\<open>ValidateProtocolComponent\<close> and the line loop of \<^verbatim>\<open>Import\<close>.
  The variables of the script (its globals and the locals of \<^verbatim>\<open>Import\<close>) are the
  fields of one state record that every function takes and returns; a \<^verbatim>\<open>return\<close>
  that leaves \<^verbatim>\<open>Import\<close> early and an unhandled Python exception are the left
  summand of the result. The rendering of the results log after the loop (source lines
  1002 to 1079) only reads the state the loop leaves behind and is not embedded.
\<close>

subsection \<open>Python's string operations\<close>

text \<open>
  A \<^typ>\<open>char\<close> stands for one character of a Python \<^verbatim>\<open>str\<close> with code point below
  256. The character classes below are those of Python 3 on that range:
  \<^verbatim>\<open>str.isspace\<close> holds for code points 9 to 13, 28 to 32, 133 and 160;
  \<^verbatim>\<open>str.isdigit\<close> for the digits 0 to 9 and the superscripts 178, 179 and 185;
  \<^verbatim>\<open>str.lower\<close> moves A to Z and the accented capitals 192 to 222 (without 215)
  up by 32.
\<close>

definition py_isspace :: "char \<Rightarrow> bool" where
  "py_isspace c = (let n = (of_char c :: nat) in
      (9 \<le> n \<and> n \<le> 13) \<or> (28 \<le> n \<and> n \<le> 32) \<or> n = 133 \<or> n = 160)"

definition py_isdigit_char :: "char \<Rightarrow> bool" where
  "py_isdigit_char c = (let n = (of_char c :: nat) in
      (48 \<le> n \<and> n \<le> 57) \<or> n = 178 \<or> n = 179 \<or> n = 185)"

definition lower_char :: "char \<Rightarrow> char" where
  "lower_char c = (let n = (of_char c :: nat) in
      if (65 \<le> n \<and> n \<le> 90) \<or> (192 \<le> n \<and> n \<le> 222 \<and> n \<noteq> 215)
      then char_of (n + 32) else c)"

text \<open>
  \<^verbatim>\<open>str.upper\<close> moves a to z and 224 to 254 (without 247) down by 32 and turns the
  sharp s (223) into two letters. The capitals of the micro sign (181) and of 255 lie
  beyond code point 255 and have no \<^typ>\<open>char\<close>; the model leaves these two characters
  as they are. The script compares an upper-cased text with the words SSH2, SSH1 and
  TELNET, where either reading gives the same answer, and keeps the upper-cased default
  protocol of the header, which is no protocol name under either reading; only the
  spelling of that default in a message differs.
\<close>

definition upper_char :: "char \<Rightarrow> string" where
  "upper_char c = (let n = (of_char c :: nat) in
      if (97 \<le> n \<and> n \<le> 122) \<or> (224 \<le> n \<and> n \<le> 254 \<and> n \<noteq> 247)
      then [char_of (n - 32)]
      else if n = 223 then ''SS'' else [c])"

definition py_lower :: "string \<Rightarrow> string" where
  "py_lower s = map lower_char s"

definition py_upper :: "string \<Rightarrow> string" where
  "py_upper s = concat (map upper_char s)"

text \<open>\<^verbatim>\<open>s.strip()\<close>, \<^verbatim>\<open>s.strip(chars)\<close> and \<^verbatim>\<open>s.lstrip(chars)\<close>.\<close>

definition py_strip :: "string \<Rightarrow> string" where
  "py_strip s = rev (dropWhile py_isspace (rev (dropWhile py_isspace s)))"

definition py_strip_chars :: "string \<Rightarrow> string \<Rightarrow> string" where
  "py_strip_chars s chars =
     rev (dropWhile (\<lambda>c. c \<in> set chars) (rev (dropWhile (\<lambda>c. c \<in> set chars) s)))"

definition py_lstrip_chars :: "string \<Rightarrow> string \<Rightarrow> string" where
  "py_lstrip_chars s chars = dropWhile (\<lambda>c. c \<in> set chars) s"

text \<open>\<^verbatim>\<open>s.isdigit()\<close>: false on the empty string.\<close>

definition py_isdigit :: "string \<Rightarrow> bool" where
  "py_isdigit s = (s \<noteq> [] \<and> list_all py_isdigit_char s)"

text \<open>\<^verbatim>\<open>sub in s\<close> and \<^verbatim>\<open>s.find(sub)\<close> (the first index, or -1).\<close>

fun py_in :: "string \<Rightarrow> string \<Rightarrow> bool" where
  "py_in sub [] = (sub = [])"
| "py_in sub (c # cs) = (take (length sub) (c # cs) = sub \<or> py_in sub cs)"

fun py_find_from :: "nat \<Rightarrow> string \<Rightarrow> string \<Rightarrow> int" where
  "py_find_from i sub [] = (if sub = [] then int i else - 1)"
| "py_find_from i sub (c # cs) =
     (if take (length sub) (c # cs) = sub then int i else py_find_from (Suc i) sub cs)"

definition py_find :: "string \<Rightarrow> string \<Rightarrow> int" where
  "py_find s sub = py_find_from 0 sub s"

text \<open>
  \<^verbatim>\<open>s.split(sep)\<close> for a non-empty separator: the separators are found from left to
  right and do not overlap. Python raises ValueError on an empty separator; the callers
  below test for it before they split.
\<close>

fun split_from :: "string \<Rightarrow> string \<Rightarrow> string \<Rightarrow> string list" where
  "split_from sep cur [] = [cur]"
| "split_from sep cur (c # cs) =
     (if sep \<noteq> [] \<and> take (length sep) (c # cs) = sep
      then cur # split_from sep [] (drop (length sep) (c # cs))
      else split_from sep (cur @ [c]) cs)"

definition py_split :: "string \<Rightarrow> string \<Rightarrow> string list" where
  "py_split s sep = split_from sep [] s"

text \<open>\<^verbatim>\<open>s.replace(old, new)\<close>: every occurrence, from left to right.\<close>

fun replace_from :: "string \<Rightarrow> string \<Rightarrow> string \<Rightarrow> string" where
  "replace_from old new [] = []"
| "replace_from old new (c # cs) =
     (if old \<noteq> [] \<and> take (length old) (c # cs) = old
      then new @ replace_from old new (drop (length old) (c # cs))
      else c # replace_from old new cs)"

definition py_replace :: "string \<Rightarrow> string \<Rightarrow> string \<Rightarrow> string" where
  "py_replace s old new =
     (if old = [] then new @ concat (map (\<lambda>c. c # new) s) else replace_from old new s)"

text \<open>
  \<^verbatim>\<open>int(s)\<close> for a string that passed \<^verbatim>\<open>isdigit\<close>: the decimal value when every
  character is one of 0 to 9, ValueError (here \<open>None\<close>) on a superscript digit.
\<close>

definition py_int :: "string \<Rightarrow> int option" where
  "py_int s =
     (if s \<noteq> [] \<and> list_all (\<lambda>c. 48 \<le> (of_char c :: nat) \<and> (of_char c :: nat) \<le> 57) s
      then Some (foldl (\<lambda>a c. 10 * a + (int (of_char c) - 48)) 0 s)
      else None)"

text \<open>
  \<^verbatim>\<open>int(s)\<close> for any text: white space around the number is dropped, one sign may lead,
  and the digits 0 to 9 may be separated by single underscores; anything else raises
  ValueError (here \<open>None\<close>).
\<close>

definition int_digits :: "string \<Rightarrow> bool" where
  "int_digits b =
     (b \<noteq> [] \<and> hd b \<in> set ''0123456789'' \<and> last b \<in> set ''0123456789''
      \<and> list_all (\<lambda>c. c \<in> set ''0123456789_'') b \<and> \<not> py_in ''__'' b)"

definition py_int_text :: "string \<Rightarrow> int option" where
  "py_int_text t =
     (let u = py_strip t;
          neg = (take 1 u = ''-'');
          b = (if take 1 u = ''-'' \<or> take 1 u = ''+'' then drop 1 u else u)
      in if int_digits b
         then Some ((if neg then - 1 else 1)
                * foldl (\<lambda>a c. 10 * a + (int (of_char c) - 48)) 0 (filter (\<lambda>c. c \<noteq> CHR ''_'') b))
         else None)"

definition crlf :: string where
  "crlf = [CHR 0x0D, CHR 0x0A]"

subsection \<open>The host application and the state of the script\<close>

text \<open>
  The terminal emulator is a collaborator. A session configuration is a table of named
  options, the session store a table of configurations keyed by session path;
  \<^verbatim>\<open>crt.OpenSessionConfiguration(path)\<close> raises when the store has no such path.
\<close>

datatype option_value = StrOpt string | IntOpt int | BoolOpt bool | ListOpt "string list"

type_synonym session_config = "string \<rightharpoonup> option_value"

type_synonym session_store = "string \<rightharpoonup> session_config"

text \<open>
  What the script reads from its surroundings: the version of the application
  (\<^verbatim>\<open>g_nMajorVersion\<close>), \<^verbatim>\<open>hasattr(sys, 'getwindowsversion')\<close>,
  \<^verbatim>\<open>sys.platform == "win32"\<close>, the answers of the three dialogs, the lines of the
  chosen file as the file iterator yields them, the text of
  \<^verbatim>\<open>datetime.datetime.now().strftime("%Y%m%d_%H%M%S.%f")[:19]\<close> when it is read while
  the line with the given number is processed, and the protocol name the application
  stores when it is asked to set a given one.
\<close>

record host_env =
  g_nMajorVersion :: int
  has_getwindowsversion :: bool
  platform_win32 :: bool
  file_dialog_choice :: string
  options_dialog_reply :: int
  delimiter_prompt_reply :: string
  data_file :: "string list"
  timestamp_at :: "nat \<Rightarrow> string"
  stored_protocol_name :: "string \<Rightarrow> string"

text \<open>
  \<^verbatim>\<open>g_strErrors\<close> is a text to which the script adds one message at a time, most of
  them in front. The model keeps the messages as a list in the order of the text, each
  message as a value that carries the data the text is formatted from.
\<close>

datatype import_error =
    InsufficientData nat string
  | FieldCountMismatch nat nat nat string
  | InvalidPort string nat string
  | UnsupportedProtocol string nat string
  | InvalidProtocol string nat string
  | EmptyHostname nat string
  | Vt320Unavailable nat string
  | InvalidEmulation string nat string
  | InvalidCharacter char string string nat string
  | ReservedName string string nat string string
  | RdpNeedsVersion9 nat string
  | RdpWindowsOnly nat string

text \<open>Why \<^verbatim>\<open>Import\<close> stopped before the end of the file.\<close>

datatype abort_reason =
    NoFileSelected
  | Cancelled
  | MissingDelimiter
  | MissingHostnameField
  | UnknownFieldDesignation string
  | ProtocolNotSet string string
  | LogonScriptWithRdp
  | EmulationWithRdp
  | PyValueError
  | PyHostError

record import_state =
  g_strDefaultProtocol :: string
  g_strDefaultFolder :: string
  g_strDefaultUsername :: string
  g_strDelimiter :: string
  g_bOverwriteExistingSessions :: bool
  g_bUseDefaultSessionOptions :: bool
  g_vFieldsArray :: "string list"
  strFieldDesignations :: string
  g_strLine :: string
  g_nCurLineNumber :: nat
  g_strErrors :: "import_error list"
  g_strBogusLinesNotImported :: string
  g_strSessionsCreated :: string
  g_nSessionsCreated :: nat
  g_nDataLines :: nat
  bFoundHeader :: bool
  vSessionInfo :: "string list"
  bSaveSession :: bool
  strSessionPath :: string
  strSessionName :: string
  strLogonScript :: string
  strPort :: string
  strProtocol :: string
  strHostName :: string
  strUserName :: string
  strEmulation :: string
  strFolder :: string
  strFolderOrig :: string
  strDescription :: string
  strDomain :: string
  sessions :: session_store

type_synonym 'a outcome = "(abort_reason \<times> import_state) + 'a"

text \<open>The values the script gives its globals before \<^verbatim>\<open>Import\<close> runs.\<close>

definition initial_state :: "session_store \<Rightarrow> import_state" where
  "initial_state store =
     \<lparr> g_strDefaultProtocol = [], g_strDefaultFolder = [], g_strDefaultUsername = [],
       g_strDelimiter = '','', g_bOverwriteExistingSessions = False,
       g_bUseDefaultSessionOptions = True, g_vFieldsArray = [], strFieldDesignations = [],
       g_strLine = [], g_nCurLineNumber = 0, g_strErrors = [],
       g_strBogusLinesNotImported = [], g_strSessionsCreated = [], g_nSessionsCreated = 0,
       g_nDataLines = 0, bFoundHeader = False, vSessionInfo = [], bSaveSession = False,
       strSessionPath = [], strSessionName = [], strLogonScript = [], strPort = [],
       strProtocol = [], strHostName = [], strUserName = [], strEmulation = [],
       strFolder = [], strFolderOrig = [], strDescription = [], strDomain = [],
       sessions = store \<rparr>"

definition SessionExists :: "session_store \<Rightarrow> string \<Rightarrow> bool" where
  "SessionExists store path = (case store path of Some objTosserConfig \<Rightarrow> True | None \<Rightarrow> False)"

subsection \<open>The header line\<close>

text \<open>
  One round of the loop over the header's fields (source lines 414 to 431): a field
  that holds \<^verbatim>\<open>protocol\<close>, \<^verbatim>\<open>folder\<close> or \<^verbatim>\<open>username\<close> together with
  \<^verbatim>\<open>=\<close> records a default and is replaced by the bare name in the header text.
  \<^verbatim>\<open>strField.split("=")[1]\<close> exists because the field holds \<^verbatim>\<open>=\<close>.
\<close>

definition header_default_step ::
    "import_state \<times> string \<Rightarrow> string \<Rightarrow> import_state \<times> string" where
  "header_default_step st strField =
     (let l = py_lower strField;
          st1 = (if py_find l ''protocol'' > - 1 \<and> py_find l ''='' > - 1
                 then ((fst st)\<lparr>g_strDefaultProtocol := py_upper (py_split strField ''='' ! 1)\<rparr>,
                       py_replace (snd st) strField ''protocol'')
                 else st);
          st2 = (if py_find l ''folder'' > - 1 \<and> py_find l ''='' > - 1
                 then ((fst st1)\<lparr>g_strDefaultFolder := py_split strField ''='' ! 1\<rparr>,
                       py_replace (snd st1) strField ''folder'')
                 else st1);
          st3 = (if py_find l ''username'' > - 1 \<and> py_find l ''='' > - 1
                 then ((fst st2)\<lparr>g_strDefaultUsername := py_split strField ''='' ! 1\<rparr>,
                       py_replace (snd st2) strField ''username'')
                 else st2)
      in st3)"

text \<open>
  \<^verbatim>\<open>ValidateFieldDesignations\<close>. When the delimiter does not occur in the header
  the operator is asked for one: an empty answer ends the script, the answer
  \<^verbatim>\<open>NONE\<close> keeps the delimiter, any other answer replaces it. The two early returns
  (no delimiter supplied, no \<^verbatim>\<open>hostname\<close> field) make \<^verbatim>\<open>Import\<close> return at
  once. Without a \<^verbatim>\<open>protocol\<close> field and without \<^verbatim>\<open>protocol=\<close> in the header
  the default protocol is read from the session named Default.
\<close>

definition resolve_delimiter :: "host_env \<Rightarrow> import_state \<Rightarrow> string \<Rightarrow> string" where
  "resolve_delimiter env s strFields =
     (if py_find strFields (g_strDelimiter s) = - 1 \<and> delimiter_prompt_reply env \<noteq> ''NONE''
      then delimiter_prompt_reply env else g_strDelimiter s)"

definition ValidateFieldDesignations ::
    "host_env \<Rightarrow> import_state \<Rightarrow> string \<Rightarrow> import_state outcome" where
  "ValidateFieldDesignations env s strFields =
     (if g_strDelimiter s = [] then Inl (PyValueError, s)
      else if py_find strFields (g_strDelimiter s) = - 1 \<and> delimiter_prompt_reply env = []
      then Inl (MissingDelimiter, s)
      else
        let s1 = s\<lparr>g_strDelimiter := resolve_delimiter env s strFields\<rparr>;
            s2 = s1\<lparr>g_vFieldsArray := py_split strFields (g_strDelimiter s1)\<rparr>
        in if ''hostname'' \<notin> set (map py_lower (g_vFieldsArray s2))
           then Inl (MissingHostnameField, s2)
           else
             let need_default = (''protocol'' \<notin> set (map py_lower (g_vFieldsArray s2))
                                  \<and> py_find (py_lower strFields) ''protocol='' = - 1)
             in if need_default \<and>
                   (case sessions s2 ''Default'' of None \<Rightarrow> True
                    | Some cfg \<Rightarrow> (case cfg ''Protocol Name'' of
                          Some (StrOpt p) \<Rightarrow> False | _ \<Rightarrow> True))
                then Inl (PyHostError, s2)
                else
                  let s3 = (if need_default
                            then (case sessions s2 ''Default'' of
                                    Some cfg \<Rightarrow> (case cfg ''Protocol Name'' of
                                        Some (StrOpt p) \<Rightarrow> s2\<lparr>g_strDefaultProtocol := p\<rparr>
                                      | _ \<Rightarrow> s2)
                                  | None \<Rightarrow> s2)
                            else s2);
                      st = foldl header_default_step (s3, strFields) (g_vFieldsArray s3)
                  in Inr ((fst st)\<lparr>g_vFieldsArray := py_split (snd st) (g_strDelimiter s3)\<rparr>))"

subsection \<open>Session and folder names\<close>

text \<open>
  The four compiled patterns of source lines 291 to 297. The two character classes are
  the characters they list; a search returns the first character of the text that is in
  the class (\<^verbatim>\<open>objMatch.group(1)\<close>).
\<close>

definition g_objReFolders :: string where
  "g_objReFolders =
     [CHR ''|'', CHR '':'', CHR ''*'', CHR ''?'', CHR 0x22, CHR ''<'', CHR ''>'']"

definition g_objReSession :: string where
  "g_objReSession =
     [CHR ''|'', CHR '':'', CHR ''*'', CHR ''?'', CHR 0x22, CHR ''<'', CHR ''>'', CHR ''/'']"

definition search_class :: "string \<Rightarrow> string \<Rightarrow> char option" where
  "search_class cls strComponent = List.find (\<lambda>c. c \<in> set cls) strComponent"

text \<open>
  The alternation \<^verbatim>\<open>(CON|PRN|AUX|NUL|COM[0-9]|LPT[0-9])\<close> under \<^verbatim>\<open>re.I\<close>, matched
  against a whole word: a letter of the word matches a letter of the pattern when their
  lower-case forms agree, and \<^verbatim>\<open>[0-9]\<close> matches the ten ASCII digits.
\<close>

definition matches_reserved :: "string \<Rightarrow> bool" where
  "matches_reserved w =
     (py_lower w \<in> set [''con'', ''prn'', ''aux'', ''nul'']
      \<or> (length w = 4 \<and> py_lower (take 3 w) \<in> set [''com'', ''lpt'']
           \<and> w ! 3 \<in> set ''0123456789''))"

text \<open>
  \<^verbatim>\<open>g_objReSpecialsSession.search\<close>: the pattern is anchored at both ends, and
  \<^verbatim>\<open>$\<close> also matches before a line feed that ends the text.
\<close>

definition g_objReSpecialsSession :: "string \<Rightarrow> string option" where
  "g_objReSpecialsSession t =
     (if matches_reserved t then Some t
      else if t \<noteq> [] \<and> last t = CHR 0x0A \<and> matches_reserved (butlast t)
      then Some (butlast t) else None)"

text \<open>
  \<^verbatim>\<open>g_objReSpecialsFolders.search\<close>: the first place of the text where a slash, a
  reserved name and a slash follow one another; the result is the name as the text
  spells it.
\<close>

fun g_objReSpecialsFolders :: "string \<Rightarrow> string option" where
  "g_objReSpecialsFolders [] = None"
| "g_objReSpecialsFolders (c # cs) =
     (if c = CHR ''/'' \<and> matches_reserved (take 3 cs) \<and> take 1 (drop 3 cs) = ''/''
      then Some (take 3 cs)
      else if c = CHR ''/'' \<and> matches_reserved (take 4 cs) \<and> take 1 (drop 4 cs) = ''/''
      then Some (take 4 cs)
      else g_objReSpecialsFolders cs)"

text \<open>
  A rejection by one of the two validators adds a message in front of
  \<^verbatim>\<open>g_strErrors\<close> and the line, after a CR LF, to \<^verbatim>\<open>g_strBogusLinesNotImported\<close>.
\<close>

definition reject_line :: "import_error \<Rightarrow> import_state \<Rightarrow> import_state" where
  "reject_line e s =
     s\<lparr>g_strErrors := e # g_strErrors s,
       g_strBogusLinesNotImported := g_strBogusLinesNotImported s @ crlf @ g_strLine s\<rparr>"

text \<open>
  Source lines 507 to 516, run only on Windows: a folder path gets a slash in front
  when it has none there, and one at its end unless what follows its first character
  is a single slash; then the pattern of the component's kind is searched.
\<close>

definition pad_folder :: "string \<Rightarrow> string" where
  "pad_folder strComponent =
     (let c1 = (if take 1 strComponent \<noteq> ''/'' then ''/'' @ strComponent else strComponent)
      in if drop 1 c1 \<noteq> ''/'' then c1 @ ''/'' else c1)"

definition search_specials :: "string \<Rightarrow> string \<Rightarrow> string option" where
  "search_specials strType strComponent =
     (if strType = ''folder'' then g_objReSpecialsFolders (pad_folder strComponent)
      else g_objReSpecialsSession strComponent)"

definition ValidateSessionFolderComponent ::
    "host_env \<Rightarrow> import_state \<Rightarrow> string \<Rightarrow> string \<Rightarrow> bool \<times> import_state" where
  "ValidateSessionFolderComponent env s strComponent strType0 =
     (let strType = py_lower strType0;
          regexp = (if strType = ''folder'' then g_objReFolders else g_objReSession)
      in case search_class regexp strComponent of
           Some bad \<Rightarrow>
             (False, reject_line (InvalidCharacter bad strType strComponent
                                    (g_nCurLineNumber s) (g_strLine s)) s)
         | None \<Rightarrow>
             if has_getwindowsversion env
             then (case search_specials strType strComponent of
                     Some name \<Rightarrow>
                       (False, reject_line (ReservedName strType strComponent
                                  (g_nCurLineNumber s) (g_strLine s) name) s)
                   | None \<Rightarrow> (True, s))
             else (True, s))"

subsection \<open>The protocol gate\<close>

definition ValidateProtocolComponent ::
    "host_env \<Rightarrow> import_state \<Rightarrow> string \<Rightarrow> bool \<times> import_state" where
  "ValidateProtocolComponent env s proto =
     (if py_in ''rdp'' (py_lower proto)
      then (if g_nMajorVersion env < 9
            then (False, reject_line (RdpNeedsVersion9 (g_nCurLineNumber s) (g_strLine s)) s)
            else if \<not> platform_win32 env
            then (False, reject_line (RdpWindowsOnly (g_nCurLineNumber s) (g_strLine s)) s)
            else (True, s))
      else (True, s))"

subsection \<open>One field of a data line\<close>

text \<open>
  The branches of the loop over the fields (source lines 683 to 814), in the order of
  the source: the label is the header's field name, stripped and in lower case, and a
  branch is taken when its keyword occurs anywhere in the label. A message is put in
  front of \<^verbatim>\<open>g_strErrors\<close>. The last branch is the \<^verbatim>\<open>return\<close> of source
  line 814.
\<close>

definition add_error :: "import_error \<Rightarrow> import_state \<Rightarrow> import_state" where
  "add_error e s = s\<lparr>bSaveSession := False, g_strErrors := e # g_strErrors s\<rparr>"

definition port_field :: "import_state \<Rightarrow> string \<Rightarrow> import_state" where
  "port_field s v =
     (let s1 = s\<lparr>strPort := py_strip v\<rparr>
      in if strPort s1 \<noteq> [] \<and> \<not> py_isdigit (strPort s1)
         then add_error (InvalidPort (strPort s1) (g_nCurLineNumber s1) (g_strLine s1)) s1
         else s1)"

definition protocol_field :: "import_state \<Rightarrow> string \<Rightarrow> import_state" where
  "protocol_field s v =
     (let s1 = s\<lparr>strProtocol := py_strip (py_lower v)\<rparr>
      in if strProtocol s1 = ''ssh2'' then s1\<lparr>strProtocol := ''SSH2''\<rparr>
         else if strProtocol s1 = ''ssh1'' then s1\<lparr>strProtocol := ''SSH1''\<rparr>
         else if strProtocol s1 = ''telnet'' then s1\<lparr>strProtocol := ''Telnet''\<rparr>
         else if strProtocol s1 = ''serial'' \<or> strProtocol s1 = ''tapi''
         then add_error (UnsupportedProtocol (py_strip v) (g_nCurLineNumber s1) (g_strLine s1)) s1
         else if strProtocol s1 = ''rlogin'' then s1\<lparr>strProtocol := ''RLogin''\<rparr>
         else if py_in ''rdp'' (py_lower (strProtocol s1)) then s1\<lparr>strProtocol := ''RDP''\<rparr>
         else if g_strDefaultProtocol s1 \<noteq> []
         then s1\<lparr>strProtocol := g_strDefaultProtocol s1\<rparr>
         else add_error (InvalidProtocol (strProtocol s1) (g_nCurLineNumber s1) (g_strLine s1)) s1)"

definition hostname_field :: "import_state \<Rightarrow> string \<Rightarrow> import_state" where
  "hostname_field s v =
     (let s1 = s\<lparr>strHostName := py_strip v\<rparr>
      in if strHostName s1 = []
         then add_error (EmptyHostname (g_nCurLineNumber s1) (g_strLine s1)) s1
         else s1)"

definition emulation_field :: "host_env \<Rightarrow> import_state \<Rightarrow> string \<Rightarrow> import_state" where
  "emulation_field env s v =
     (let s1 = s\<lparr>strEmulation := py_strip (py_lower v)\<rparr>
      in if strEmulation s1 = ''xterm'' then s1\<lparr>strEmulation := ''Xterm''\<rparr>
         else if strEmulation s1 = ''vt100'' then s1\<lparr>strEmulation := ''VT100''\<rparr>
         else if strEmulation s1 = ''vt102'' then s1\<lparr>strEmulation := ''VT102''\<rparr>
         else if strEmulation s1 = ''vt220'' then s1\<lparr>strEmulation := ''VT220''\<rparr>
         else if strEmulation s1 = ''vt320''
         then (if g_nMajorVersion env < 8
               then add_error (Vt320Unavailable (g_nCurLineNumber s1) (g_strLine s1)) s1
               else s1\<lparr>strEmulation := ''VT320''\<rparr>)
         else if strEmulation s1 = ''ansi'' then s1\<lparr>strEmulation := ''ANSI''\<rparr>
         else if strEmulation s1 = ''linux'' then s1\<lparr>strEmulation := ''Linux''\<rparr>
         else if strEmulation s1 = ''scoansi'' then s1\<lparr>strEmulation := ''SCOANSI''\<rparr>
         else if strEmulation s1 = ''vshell'' then s1\<lparr>strEmulation := ''VShell''\<rparr>
         else if strEmulation s1 = ''wyse50'' then s1\<lparr>strEmulation := ''WYSE50''\<rparr>
         else if strEmulation s1 = ''wyse60'' then s1\<lparr>strEmulation := ''WYSE60''\<rparr>
         else add_error (InvalidEmulation (strEmulation s1) (g_nCurLineNumber s1) (g_strLine s1)) s1)"

definition folder_field :: "import_state \<Rightarrow> string \<Rightarrow> import_state" where
  "folder_field s v =
     (let s1 = s\<lparr>strFolderOrig := py_strip v, strFolder := py_lower (py_strip v)\<rparr>
      in if strFolder s1 = []
         then s1\<lparr>strFolder := g_strDefaultFolder s1, strFolderOrig := g_strDefaultFolder s1\<rparr>
         else s1)"

text \<open>
  Several description fields end up on lines of their own: the second and later ones
  are joined with a backslash and the letter r, which is then replaced by a carriage
  return everywhere in the text.
\<close>

definition description_field :: "import_state \<Rightarrow> string \<Rightarrow> import_state" where
  "description_field s v =
     (if strDescription s = [] then s\<lparr>strDescription := py_strip v\<rparr>
      else s\<lparr>strDescription :=
             py_replace (strDescription s @ [CHR 0x5C, CHR ''r''] @ py_strip v)
                        [CHR 0x5C, CHR ''r''] [CHR 0x0D]\<rparr>)"

definition process_field ::
    "host_env \<Rightarrow> import_state \<Rightarrow> string \<Rightarrow> string \<Rightarrow> import_state outcome" where
  "process_field env s fld v =
     (let strFieldLabel = py_lower (py_strip fld)
      in if py_in ''session_name'' strFieldLabel then Inr (s\<lparr>strSessionName := py_strip v\<rparr>)
         else if py_in ''logon_script'' strFieldLabel then Inr (s\<lparr>strLogonScript := py_strip v\<rparr>)
         else if py_in ''port'' strFieldLabel then Inr (port_field s v)
         else if py_in ''protocol'' strFieldLabel then Inr (protocol_field s v)
         else if py_in ''hostname'' strFieldLabel then Inr (hostname_field s v)
         else if py_in ''username'' strFieldLabel then Inr (s\<lparr>strUserName := py_strip v\<rparr>)
         else if py_in ''emulation'' strFieldLabel then Inr (emulation_field env s v)
         else if py_in ''folder'' strFieldLabel then Inr (folder_field s v)
         else if py_in ''description'' strFieldLabel then Inr (description_field s v)
         else if py_in ''domain'' strFieldLabel then Inr (s\<lparr>strDomain := py_strip v\<rparr>)
         else Inl (UnknownFieldDesignation fld, s))"

text \<open>
  The loop \<^verbatim>\<open>for nFieldIndex in range(0, len(vSessionInfo))\<close>; it runs only when the
  line has as many values as the header has fields, so it walks the two lists side by
  side.
\<close>

fun process_fields ::
    "host_env \<Rightarrow> import_state \<Rightarrow> (string \<times> string) list \<Rightarrow> import_state outcome" where
  "process_fields env s [] = Inr s"
| "process_fields env s (fv # rest) =
     (case process_field env s (fst fv) (snd fv) of
        Inl a \<Rightarrow> Inl a
      | Inr s1 \<Rightarrow> process_fields env s1 rest)"

subsection \<open>Creating the session\<close>

text \<open>
  \<^verbatim>\<open>int(v)\<close> for the value of an option: a number is itself, a truth value is 0 or 1,
  a text is read as a number, and a list raises TypeError (here \<open>None\<close>).
\<close>

definition py_int_value :: "option_value \<Rightarrow> int option" where
  "py_int_value v =
     (case v of IntOpt n \<Rightarrow> Some n
      | BoolOpt b \<Rightarrow> Some (if b then 1 else 0)
      | StrOpt t \<Rightarrow> py_int_text t
      | ListOpt l \<Rightarrow> None)"

text \<open>
  The options this script sets when the operator chose its own settings (source lines
  930 to 975, inside \<^verbatim>\<open>try\<close>): reading an option the configuration does not
  hold, or a scrollback size that \<^verbatim>\<open>int\<close> refuses, raises, and the handler goes on
  with what was set so far. \<^verbatim>\<open>str\<close> of an option's value is empty for the empty text
  only.
\<close>

definition custom_options :: "session_config \<Rightarrow> session_config" where
  "custom_options c =
     (let c1 = c(''ANSI Color'' \<mapsto> BoolOpt True,
                 ''Color Scheme'' \<mapsto> StrOpt ''Solarized Darcula'',
                 ''Color Scheme Overrides Ansi Color'' \<mapsto> BoolOpt True,
                 ''Auto Reconnect'' \<mapsto> BoolOpt True,
                 ''Start Log Upon Connect'' \<mapsto> BoolOpt False,
                 ''Rows'' \<mapsto> IntOpt 60,
                 ''Cols'' \<mapsto> IntOpt 140,
                 ''Use Word Delimiter Chars'' \<mapsto> BoolOpt True)
      in case c1 ''Word Delimiter Chars'' of
           Some w \<Rightarrow>
             (let c2 = (if w = StrOpt []
                        then c1(''Word Delimiter Chars'' \<mapsto> StrOpt '' <>()+=$%!#*'')
                        else c1)
              in case c2 ''Scrollback'' of
                   Some v \<Rightarrow>
                     (case py_int_value v of
                        Some n \<Rightarrow>
                          (let c3 = (if n = 500 then c2(''Scrollback'' \<mapsto> IntOpt 12345) else c2)
                           in c3(''Key Exchange Algorithms'' \<mapsto> StrOpt
  ''diffie-hellman-group-exchange-sha256,ecdh-sha2-nistp256,ecdh-sha2-nistp384,ecdh-sha2-nistp521,diffie-hellman-group-exchange-sha1,diffie-hellman-group14-sha1,diffie-hellman-group1-sha1'',
                                 ''Idle NO-OP Check'' \<mapsto> BoolOpt True,
                                 ''Idle NO-OP Timeout'' \<mapsto> IntOpt 60,
                                 ''Auth Prompts in Window'' \<mapsto> BoolOpt True))
                      | None \<Rightarrow> c2)
                 | None \<Rightarrow> c2)
         | None \<Rightarrow> c1)"

text \<open>
  The port option by protocol (source lines 909 to 924): the name of the option and
  the port used when the line gives none; \<open>None\<close> when the protocol sets no port.
\<close>

definition port_option :: "string \<Rightarrow> (string \<times> string) option" where
  "port_option proto =
     (if py_upper proto = ''SSH2'' then Some (''[SSH2] Port'', ''22'')
      else if py_upper proto = ''SSH1'' then Some (''[SSH1] Port'', ''22'')
      else if py_upper proto = ''TELNET'' then Some (''Port'', ''23'')
      else if py_in ''rdp'' (py_lower proto) then Some (''Port'', ''3389'')
      else None)"

text \<open>
  Source lines 878 to 924: the options of the record, each set on the configuration
  when the record has the value.
\<close>

definition description_option :: "import_state \<Rightarrow> session_config \<Rightarrow> session_config" where
  "description_option s c =
     (if strDescription s \<noteq> []
      then c(''Description'' \<mapsto> ListOpt (py_split (strDescription s) [CHR 0x0D]))
      else c)"

definition logon_script_option :: "import_state \<Rightarrow> session_config \<Rightarrow> session_config" where
  "logon_script_option s c =
     (if strLogonScript s \<noteq> []
      then c(''Script Filename V2'' \<mapsto> StrOpt (strLogonScript s),
             ''Use Script File'' \<mapsto> BoolOpt True)
      else c)"

definition emulation_option :: "import_state \<Rightarrow> session_config \<Rightarrow> session_config" where
  "emulation_option s c =
     (if strEmulation s \<noteq> [] then c(''Emulation'' \<mapsto> StrOpt (strEmulation s)) else c)"

definition hostname_option :: "import_state \<Rightarrow> session_config \<Rightarrow> session_config" where
  "hostname_option s c =
     (if py_lower (strProtocol s) \<noteq> ''serial'' \<and> strHostName s \<noteq> []
      then c(''Hostname'' \<mapsto> StrOpt (strHostName s)) else c)"

definition username_option :: "import_state \<Rightarrow> session_config \<Rightarrow> session_config" where
  "username_option s c =
     (if py_lower (strProtocol s) \<noteq> ''serial'' \<and> strUserName s \<noteq> []
      then (if py_in ''rdp'' (py_lower (strProtocol s)) \<and> strDomain s \<noteq> []
            then c(''Username'' \<mapsto> StrOpt (strDomain s @ [CHR 0x5C] @ strUserName s))
            else c(''Username'' \<mapsto> StrOpt (strUserName s)))
      else c)"

definition default_port :: "import_state \<Rightarrow> import_state" where
  "default_port s =
     (case port_option (strProtocol s) of
        Some (name, dflt) \<Rightarrow> (if strPort s = [] then s\<lparr>strPort := dflt\<rparr> else s)
      | None \<Rightarrow> s)"

definition port_number_option :: "import_state \<Rightarrow> session_config \<Rightarrow> session_config" where
  "port_number_option s c =
     (case port_option (strProtocol s) of
        Some (name, dflt) \<Rightarrow> c(name \<mapsto> IntOpt (the (py_int (strPort s))))
      | None \<Rightarrow> c)"

text \<open>
  Source lines 979 to 985: the final \<^verbatim>\<open>Save\<close> under the path of the session, the list
  of created sessions and their count.
\<close>

definition register_session :: "import_state \<Rightarrow> session_config \<Rightarrow> import_state" where
  "register_session s c =
     s\<lparr>sessions := (sessions s)(strSessionPath s \<mapsto> c),
       g_strSessionsCreated :=
         (if g_strSessionsCreated s \<noteq> [] then g_strSessionsCreated s @ [CHR 0x0A]
          else g_strSessionsCreated s) @ ''    '' @ strSessionPath s,
       g_nSessionsCreated := g_nSessionsCreated s + 1\<rparr>"

text \<open>
  Source lines 878 to 985 on the configuration \<open>c\<close> reopened from the new path, in the
  order of the source: description, logon script (a \<^verbatim>\<open>return\<close> on an RDP session),
  emulation (likewise), host name, user name, the port with \<^verbatim>\<open>int(strPort)\<close>, the
  script's own options, and the final \<^verbatim>\<open>Save\<close>.
\<close>

definition configure_session ::
    "host_env \<Rightarrow> import_state \<Rightarrow> session_config \<Rightarrow> import_state outcome" where
  "configure_session env s c =
     (let rdp = py_in ''rdp'' (py_lower (strProtocol s));
          c1 = description_option s c
      in if strLogonScript s \<noteq> [] \<and> rdp then Inl (LogonScriptWithRdp, s)
         else
           let c2 = logon_script_option s c1
           in if strEmulation s \<noteq> [] \<and> rdp then Inl (EmulationWithRdp, s)
              else
                let c5 = username_option s (hostname_option s (emulation_option s c2));
                    s1 = default_port s
                in if port_option (strProtocol s) \<noteq> None \<and> py_int (strPort s1) = None
                   then Inl (PyValueError, s1)
                   else
                     let c6 = port_number_option s1 c5;
                         c7 = (if \<not> g_bUseDefaultSessionOptions s1 \<and> \<not> rdp
                               then custom_options c6 else c6)
                     in Inr (register_session s1 c7))"

text \<open>
  Source lines 832 to 876: the path of the session, the default user name, the
  time-stamped path when a session of that path exists and existing sessions are not
  to be overwritten, the first \<^verbatim>\<open>Save\<close> of a copy of the Default session under the
  path, and the check that the application kept the protocol.
\<close>

definition resolve_path :: "import_state \<Rightarrow> import_state" where
  "resolve_path s =
     (let s1 = s\<lparr>strSessionPath := strSessionName s\<rparr>;
          s2 = (if py_strip (strFolderOrig s1) \<noteq> []
                then s1\<lparr>strSessionPath := strFolderOrig s1 @ ''/'' @ strSessionName s1\<rparr>
                else s1);
          s3 = (if py_strip (strUserName s2) = []
                then s2\<lparr>strUserName := g_strDefaultUsername s2\<rparr> else s2)
      in s3\<lparr>strSessionPath := py_lstrip_chars (strSessionPath s3) ''/''\<rparr>)"

definition session_path :: "host_env \<Rightarrow> import_state \<Rightarrow> import_state" where
  "session_path env s =
     (let s4 = resolve_path s
      in if SessionExists (sessions s4) (strSessionPath s4)
            \<and> \<not> g_bOverwriteExistingSessions s4
         then s4\<lparr>strSessionPath := strSessionPath s4 @ ''(import_(''
                     @ timestamp_at env (g_nCurLineNumber s4) @ '')''\<rparr>
         else s4)"

definition create_session :: "host_env \<Rightarrow> import_state \<Rightarrow> import_state outcome" where
  "create_session env s =
     (let s1 = session_path env s
      in case sessions s1 ''Default'' of
           None \<Rightarrow> Inl (PyHostError, s1)
         | Some dflt \<Rightarrow>
             let c = dflt(''Protocol Name'' \<mapsto>
                            StrOpt (stored_protocol_name env (strProtocol s1)));
                 s2 = s1\<lparr>sessions := (sessions s1)(strSessionPath s1 \<mapsto> c)\<rparr>
             in if stored_protocol_name env (strProtocol s2) \<noteq> strProtocol s2
                then Inl (ProtocolNotSet (strProtocol s2)
                            (stored_protocol_name env (strProtocol s2)), s2)
                else configure_session env s2 c)"

subsection \<open>One data line\<close>

text \<open>
  Source lines 816 to 832, after the loop over the fields: the session name falls back
  to the host name, the three validators run one after the other (each on the state the
  one before left), and the session is created when \<^verbatim>\<open>bSaveSession\<close> still holds.
\<close>

definition finish_record :: "host_env \<Rightarrow> import_state \<Rightarrow> import_state" where
  "finish_record env s =
     (let s1 = (if strSessionName s = [] then s\<lparr>strSessionName := strHostName s\<rparr> else s);
          r1 = ValidateSessionFolderComponent env s1 (strSessionName s1) ''session'';
          s2 = (if \<not> fst r1 then (snd r1)\<lparr>bSaveSession := False\<rparr> else snd r1);
          s3 = (if strFolderOrig s2 = [] then s2\<lparr>strFolderOrig := g_strDefaultFolder s2\<rparr>
                else s2);
          r2 = ValidateSessionFolderComponent env s3 (strFolderOrig s3) ''folder'';
          s4 = (if \<not> fst r2 then (snd r2)\<lparr>bSaveSession := False\<rparr> else snd r2);
          r3 = ValidateProtocolComponent env s4 (strProtocol s4)
      in if \<not> fst r3 then (snd r3)\<lparr>bSaveSession := False\<rparr> else snd r3)"

text \<open>
  Source lines 649 to 677: the line is split at the delimiter and its number of values
  is compared with the number of fields of the header.
\<close>

definition too_few_fields :: "import_state \<Rightarrow> import_state" where
  "too_few_fields s =
     (let s1 = (if py_strip (g_strLine s) = [] then s\<lparr>g_strLine := ''[Empty Line]''\<rparr> else s)
      in s1\<lparr>g_strErrors := InsufficientData (g_nCurLineNumber s1) (g_strLine s1)
                               # g_strErrors s1\<rparr>)"

definition too_many_fields :: "import_state \<Rightarrow> import_state" where
  "too_many_fields s =
     s\<lparr>g_strErrors := g_strErrors s @
          [FieldCountMismatch (g_nCurLineNumber s) (length (vSessionInfo s))
             (length (g_vFieldsArray s)) (g_strLine s)],
       g_strBogusLinesNotImported := g_strBogusLinesNotImported s @ crlf @ g_strLine s,
       bSaveSession := False\<rparr>"

definition normalize_line :: "host_env \<Rightarrow> import_state \<Rightarrow> import_state outcome" where
  "normalize_line env s =
     (case process_fields env (s\<lparr>bSaveSession := True\<rparr>)
             (zip (g_vFieldsArray s) (vSessionInfo s)) of
        Inl a \<Rightarrow> Inl a
      | Inr s1 \<Rightarrow> Inr (finish_record env s1))"

definition process_data_line :: "host_env \<Rightarrow> import_state \<Rightarrow> import_state outcome" where
  "process_data_line env s =
     (if g_strDelimiter s = [] then Inl (PyValueError, s)
      else
        let s1 = s\<lparr>vSessionInfo := py_split (g_strLine s) (g_strDelimiter s)\<rparr>
        in if length (vSessionInfo s1) < length (g_vFieldsArray s1) then Inr (too_few_fields s1)
           else if length (vSessionInfo s1) > length (g_vFieldsArray s1)
           then Inr (too_many_fields s1)
           else (case normalize_line env s1 of
                   Inl a \<Rightarrow> Inl a
                 | Inr s2 \<Rightarrow> if bSaveSession s2 then create_session env s2 else Inr s2))"

subsection \<open>The loop over the lines of the file\<close>

text \<open>
  What every round does first (source lines 620 to 637) and last (lines 989 to 1000).
  \<^verbatim>\<open>strSessionName\<close> is cleared only at the end of a round, \<^verbatim>\<open>strLogonScript\<close>
  only at its start.
\<close>

definition begin_iteration :: "import_state \<Rightarrow> string \<Rightarrow> import_state" where
  "begin_iteration s strLine =
     s\<lparr>g_strLine := py_strip_chars strLine [CHR 0x0D, CHR 0x0A],
       g_nCurLineNumber := g_nCurLineNumber s + 1,
       bSaveSession := False, strSessionPath := [], strPort := [], strProtocol := [],
       strHostName := [], strUserName := [], strEmulation := [], strFolder := [],
       strFolderOrig := [], strDescription := [], strLogonScript := [], strDomain := []\<rparr>"

definition end_iteration :: "import_state \<Rightarrow> import_state" where
  "end_iteration s =
     s\<lparr>strEmulation := [], strPort := [], strHostName := [], strFolder := [],
       strFolderOrig := [], strUserName := [], strSessionName := [], strDescription := [],
       strProtocol := [], strDomain := [], g_nDataLines := g_nDataLines s + 1\<rparr>"

definition process_iteration ::
    "host_env \<Rightarrow> import_state \<Rightarrow> string \<Rightarrow> import_state outcome" where
  "process_iteration env s strLine =
     (let s1 = begin_iteration s strLine
      in if \<not> bFoundHeader s1
         then (case ValidateFieldDesignations env
                      (s1\<lparr>strFieldDesignations := g_strLine s1\<rparr>) (g_strLine s1) of
                 Inl a \<Rightarrow> Inl a
               | Inr s2 \<Rightarrow> Inr (end_iteration (s2\<lparr>bFoundHeader := True\<rparr>)))
         else (case process_data_line env s1 of
                 Inl a \<Rightarrow> Inl a
               | Inr s2 \<Rightarrow> Inr (end_iteration s2)))"

fun import_lines ::
    "host_env \<Rightarrow> import_state \<Rightarrow> string list \<Rightarrow> import_state outcome" where
  "import_lines env s [] = Inr s"
| "import_lines env s (strLine # rest) =
     (case process_iteration env s strLine of
        Inl a \<Rightarrow> Inl a
      | Inr s1 \<Rightarrow> import_lines env s1 rest)"

text \<open>
  \<^verbatim>\<open>Import\<close> up to the end of the loop: the two dialogs, then the lines of the file.
  The answers 6 and 7 choose between the Default session's options and the script's own,
  2 cancels, any other answer leaves the choice as it was.
\<close>

definition Import :: "host_env \<Rightarrow> import_state \<Rightarrow> import_state outcome" where
  "Import env s =
     (if file_dialog_choice env = [] then Inl (NoFileSelected, s)
      else if options_dialog_reply env = 2 then Inl (Cancelled, s)
      else
        import_lines env
          (s\<lparr>g_bUseDefaultSessionOptions :=
               (if options_dialog_reply env = 6 then True
                else if options_dialog_reply env = 7 then False
                else g_bUseDefaultSessionOptions s),
             bFoundHeader := False, g_nCurLineNumber := 0, vSessionInfo := []\<rparr>)
          (data_file env))"

subsection \<open>Notions of the specification\<close>

text \<open>
  The reserved device names of Windows as the specification lists them; a name is
  reserved when it agrees with one of them up to the case of its letters.
\<close>

definition reserved_names :: "string list" where
  "reserved_names =
     [''CON'', ''PRN'', ''AUX'', ''NUL''] @ map (\<lambda>d. ''COM'' @ [d]) ''0123456789''
       @ map (\<lambda>d. ''LPT'' @ [d]) ''0123456789''"

definition is_reserved_name :: "string \<Rightarrow> bool" where
  "is_reserved_name w = (py_lower w \<in> set (map py_lower reserved_names))"


text \<open>
  Surroundings for the worked examples: the application in version 9 on Windows and in
  version 7 on another system, both keeping the protocol name they are given, and a
  store that holds the Default session only.
\<close>

definition example_store :: session_store where
  "example_store = [''Default'' \<mapsto> [''Protocol Name'' \<mapsto> StrOpt ''SSH2'']]"

definition windows_env :: "string list \<Rightarrow> host_env" where
  "windows_env file =
     \<lparr> g_nMajorVersion = 9, has_getwindowsversion = True, platform_win32 = True,
       file_dialog_choice = ''hosts.csv'', options_dialog_reply = 6,
       delimiter_prompt_reply = [], data_file = file,
       timestamp_at = (\<lambda>n. ''20210625_120000.000''),
       stored_protocol_name = (\<lambda>p. p) \<rparr>"

definition other_env :: "string list \<Rightarrow> host_env" where
  "other_env file =
     \<lparr> g_nMajorVersion = 7, has_getwindowsversion = False, platform_win32 = False,
       file_dialog_choice = ''hosts.csv'', options_dialog_reply = 6,
       delimiter_prompt_reply = [], data_file = file,
       timestamp_at = (\<lambda>n. ''20210625_120000.000''),
       stored_protocol_name = (\<lambda>p. p) \<rparr>"

text \<open>
  The protocol table of the specification, keyed by the token in lower case, and the
  two protocols it names as unsupported.
\<close>

definition protocol_table :: "(string \<times> string) list" where
  "protocol_table =
     [(''ssh2'', ''SSH2''), (''ssh1'', ''SSH1''), (''telnet'', ''Telnet''), (''rlogin'', ''RLogin'')]"

definition unsupported_protocols :: "string list" where
  "unsupported_protocols = [''serial'', ''tapi'']"

text \<open>
  The part of the state that the loop over the fields of a line leaves alone: the state
  with the variables that loop assigns blanked out.
\<close>

definition fields_frame :: "import_state \<Rightarrow> import_state" where
  "fields_frame s =
     s\<lparr>bSaveSession := False, g_strErrors := [], strSessionName := [], strLogonScript := [],
       strPort := [], strProtocol := [], strHostName := [], strUserName := [],
       strEmulation := [], strFolder := [], strFolderOrig := [], strDescription := [],
       strDomain := []\<rparr>"

text \<open>
  The part of the state that the steps after the loop over the fields leave alone, and the effect of a validator's verdict on \<^verbatim>\<open>bSaveSession\<close> (a failed check clears it).
\<close>

definition finish_frame :: "import_state \<Rightarrow> import_state" where
  "finish_frame s =
     s\<lparr>bSaveSession := False, g_strErrors := [], g_strBogusLinesNotImported := [],
       strSessionName := [], strFolderOrig := []\<rparr>"

definition after_check :: "bool \<times> import_state \<Rightarrow> import_state" where
  "after_check r = (if \<not> fst r then (snd r)\<lparr>bSaveSession := False\<rparr> else snd r)"

text \<open>
  The part of the state that the creation of a session leaves alone.
\<close>

definition create_frame :: "import_state \<Rightarrow> import_state" where
  "create_frame s =
     s\<lparr>strSessionPath := [], strUserName := [], strPort := [], sessions := Map.empty,
       g_strSessionsCreated := [], g_nSessionsCreated := 0\<rparr>"

text \<open>
  A state in which the second line of a file is about to be processed as a data line: the header gave the field names, and the line is the text of the data line.
\<close>

definition example_line :: "string list \<Rightarrow> string \<Rightarrow> import_state" where
  "example_line names line =
     (initial_state example_store)\<lparr>g_vFieldsArray := names, bFoundHeader := True,
        g_strLine := line, g_nCurLineNumber := 2\<rparr>"

text \<open>
  A store that already holds a session named h, and the state in which a data line for the host h is about to be normalized against it.
\<close>

definition duplicate_store :: session_store where
  "duplicate_store = example_store(''h'' \<mapsto> [''Protocol Name'' \<mapsto> StrOpt ''Telnet''])"

definition duplicate_line :: import_state where
  "duplicate_line =
     (example_line [''hostname'', ''protocol''] ''h,ssh2'')
       \<lparr>sessions := duplicate_store, vSessionInfo := [''h'', ''ssh2'']\<rparr>"

text \<open>
  A file, and its data line about to be normalized, whose port is 0.
\<close>

definition port_zero_file :: "string list" where
  "port_zero_file = [''hostname,port,protocol'' @ [CHR 0x0A], ''h,0,ssh2'' @ [CHR 0x0A]]"

definition port_zero_line :: import_state where
  "port_zero_line =
     (example_line [''hostname'', ''port'', ''protocol''] ''h,0,ssh2'')
       \<lparr>vSessionInfo := [''h'', ''0'', ''ssh2'']\<rparr>"

text \<open>
  A file, and its data line about to be normalized, whose port is the superscript two
  (code point 178), and a run in which the operator names the delimiter
  \<^verbatim>\<open>;folder=x\<close> for the header \<^verbatim>\<open>folder=xh;folder=xhostname\<close>.
\<close>

definition superscript_port_file :: "string list" where
  "superscript_port_file =
     [''hostname,port,protocol'' @ [CHR 0x0A], ''h,'' @ [CHR 0xB2] @ '',ssh2'' @ [CHR 0x0A]]"

definition superscript_port_line :: import_state where
  "superscript_port_line =
     (example_line [''hostname'', ''port'', ''protocol''] (''h,'' @ [CHR 0xB2] @ '',ssh2''))
       \<lparr>vSessionInfo := [''h'', [CHR 0xB2], ''ssh2'']\<rparr>"

definition swallowed_hostname_env :: host_env where
  "swallowed_hostname_env =
     (windows_env [''folder=xh;folder=xhostname'' @ [CHR 0x0A], ''abc'' @ [CHR 0x0A]])
       \<lparr>delimiter_prompt_reply := '';folder=x''\<rparr>"

text \<open>
  The state without what a run accumulates (line text and number, messages, lists and counters, the session path and the store, the switches); the state the loop hands to normalization for a line; the values of a normalized record (the user name with its default applied, as the creation of the session does); and outcomes that agree up to what a run accumulates.
\<close>

definition record_core :: "import_state \<Rightarrow> import_state" where
  "record_core s =
     s\<lparr>g_strLine := [], g_nCurLineNumber := 0, g_strErrors := [],
       g_strBogusLinesNotImported := [], g_strSessionsCreated := [], g_nSessionsCreated := 0,
       g_nDataLines := 0, strFieldDesignations := [], strSessionPath := [],
       sessions := Map.empty, g_bOverwriteExistingSessions := False,
       g_bUseDefaultSessionOptions := False, bFoundHeader := False\<rparr>"

definition prepare_line :: "import_state \<Rightarrow> string \<Rightarrow> import_state" where
  "prepare_line s strLine =
     (let s1 = begin_iteration s strLine
      in s1\<lparr>vSessionInfo := py_split (g_strLine s1) (g_strDelimiter s1)\<rparr>)"

definition normalized_record :: "import_state \<Rightarrow> string list" where
  "normalized_record s =
     [strSessionName s, strHostName s, strProtocol s, strPort s, strUserName (resolve_path s),
      strEmulation s, strFolderOrig s, strDescription s, strLogonScript s, strDomain s]"

definition same_outcome :: "import_state outcome \<Rightarrow> import_state outcome \<Rightarrow> bool" where
  "same_outcome r1 r2 =
     (case r1 of
        Inr a \<Rightarrow> (case r2 of Inr b \<Rightarrow> record_core a = record_core b | Inl y \<Rightarrow> False)
      | Inl x \<Rightarrow> (case r2 of Inr b \<Rightarrow> False
                  | Inl y \<Rightarrow> fst x = fst y \<and> record_core (snd x) = record_core (snd y)))"

text \<open>
  What the header fixed for the run: its fields, the delimiter, the recorded defaults and the switches.
\<close>

definition schema_view ::
    "import_state \<Rightarrow> string list \<times> string \<times> string \<times> string \<times> string \<times> bool \<times> bool \<times> bool" where
  "schema_view s =
     (g_vFieldsArray s, g_strDelimiter s, g_strDefaultProtocol s, g_strDefaultFolder s,
      g_strDefaultUsername s, g_bOverwriteExistingSessions s, g_bUseDefaultSessionOptions s,
      bFoundHeader s)"

text \<open>
  The schema and the defaults a header records: the fields, the delimiter, and the default protocol, folder and user name. A state late in a run (line 7, one message, four sessions created, a store that holds the session h), and the state a round of the loop leaves behind.
\<close>

definition schema_defaults :: "import_state \<Rightarrow> string list \<times> string \<times> string \<times> string \<times> string" where
  "schema_defaults s =
     (g_vFieldsArray s, g_strDelimiter s, g_strDefaultProtocol s, g_strDefaultFolder s,
      g_strDefaultUsername s)"

definition later_state :: import_state where
  "later_state =
     (example_line [''hostname'', ''protocol''] ''x'')
       \<lparr>g_nCurLineNumber := 7, g_strErrors := [EmptyHostname 3 '',ssh2''],
        g_nSessionsCreated := 4, sessions := duplicate_store\<rparr>"

definition after_round :: "import_state \<Rightarrow> string \<Rightarrow> import_state" where
  "after_round p l = projr (process_iteration (windows_env []) p l)"

section \<open>Properties\<close>

subsection \<open>Strings\<close>

lemma py_find_from_in: "(py_find_from i sub s = - 1) = (\<not> py_in sub s)"
  by (induction s arbitrary: i) auto

lemma py_find_from_range: "py_find_from i sub s = - 1 \<or> int i \<le> py_find_from i sub s"
proof (induction s arbitrary: i)
  case Nil
  then show ?case by simp
next
  case (Cons c cs)
  from Cons[of "Suc i"] show ?case by auto
qed

lemma py_find_minus_one: "(py_find s sub = - 1) = (\<not> py_in sub s)"
  by (simp add: py_find_def py_find_from_in)

lemma py_find_found: "(py_find s sub > - 1) = py_in sub s"
  using py_find_from_range[of 0 sub s] py_find_from_in[of 0 sub s]
  by (auto simp: py_find_def)

lemma of_char_lower_char:
  "of_char (lower_char c) = (let n = (of_char c :: nat) in
      if (65 \<le> n \<and> n \<le> 90) \<or> (192 \<le> n \<and> n \<le> 222 \<and> n \<noteq> 215) then n + 32 else n)"
  by (auto simp: lower_char_def Let_def)

lemma lower_char_idem: "lower_char (lower_char c) = lower_char c"
  using of_char_lower_char[of c]
  by (subst (1) lower_char_def) (auto simp: Let_def)

lemma py_lower_idem: "py_lower (py_lower s) = py_lower s"
  by (simp add: py_lower_def lower_char_idem)

lemma lower_char_fixed:
  "(of_char c :: nat) < 65 \<or> (90 < (of_char c :: nat) \<and> (of_char c :: nat) < 192) \<Longrightarrow> lower_char c = c"
  by (auto simp: lower_char_def Let_def)

lemma lower_char_low:
  "(of_char (lower_char c) :: nat) < 65 \<Longrightarrow> lower_char c = c"
  using of_char_lower_char[of c] by (auto simp: Let_def lower_char_def split: if_splits)

lemma search_class_Some: "c \<in> set cls \<Longrightarrow> c \<in> set t \<Longrightarrow> search_class cls t \<noteq> None"
  by (auto simp: search_class_def find_None_iff)

lemma lower_char_slash: "lower_char (CHR ''/'') = CHR ''/''"
  by (simp add: lower_char_def)

lemma py_lower_folder: "py_lower ''folder'' = ''folder''"
  by (simp add: py_lower_def lower_char_def)

subsection \<open>Reserved names and folder paths\<close>

lemma lower_digit: "d \<in> set ''0123456789'' \<Longrightarrow> lower_char d = d"
  by (auto simp: lower_char_def)

lemma lower_char_digit: "lower_char c \<in> set ''0123456789'' \<Longrightarrow> lower_char c = c"
  by (rule lower_char_low) auto

lemma lower3: "py_lower ''CON'' = ''con''" "py_lower ''PRN'' = ''prn''" "py_lower ''AUX'' = ''aux''"
  "py_lower ''NUL'' = ''nul''" "py_lower ''COM'' = ''com''" "py_lower ''LPT'' = ''lpt''"
  by code_simp+

lemma lower_reserved_names:
  "set (map py_lower reserved_names) =
     set [''con'', ''prn'', ''aux'', ''nul''] \<union> (\<lambda>d. ''com'' @ [d]) ` set ''0123456789''
       \<union> (\<lambda>d. ''lpt'' @ [d]) ` set ''0123456789''"
proof -
  have a: "py_lower (''COM'' @ [d]) = ''com'' @ [lower_char d]" for d
    using lower3(5) by (simp add: py_lower_def)
  have b: "py_lower (''LPT'' @ [d]) = ''lpt'' @ [lower_char d]" for d
    using lower3(6) by (simp add: py_lower_def)
  have c: "(\<lambda>d. py_lower (''COM'' @ [d])) ` set ''0123456789'' = (\<lambda>d. ''com'' @ [d]) ` set ''0123456789''"
    by (rule image_cong) (simp_all only: a lower_digit)
  have d: "(\<lambda>d. py_lower (''LPT'' @ [d])) ` set ''0123456789'' = (\<lambda>d. ''lpt'' @ [d]) ` set ''0123456789''"
    by (rule image_cong) (simp_all only: b lower_digit)
  have "set (map py_lower reserved_names) =
     set (map py_lower [''CON'', ''PRN'', ''AUX'', ''NUL'']) \<union> (\<lambda>d. py_lower (''COM'' @ [d])) ` set ''0123456789''
       \<union> (\<lambda>d. py_lower (''LPT'' @ [d])) ` set ''0123456789''"
    unfolding reserved_names_def by (simp only: map_append set_append set_map image_image image_Un Un_assoc)
  also have "map py_lower [''CON'', ''PRN'', ''AUX'', ''NUL''] = [''con'', ''prn'', ''aux'', ''nul'']"
    by (simp only: list.map lower3)
  finally show ?thesis by (simp only: c d)
qed

lemma length4: "length w = 4 \<Longrightarrow> \<exists>a b c d. w = [a, b, c, d]"
  by (auto simp: numeral_eq_Suc length_Suc_conv)


lemma matches_reserved_imp: "matches_reserved w \<Longrightarrow> is_reserved_name w"
proof -
  assume "matches_reserved w"
  then consider "py_lower w \<in> set [''con'', ''prn'', ''aux'', ''nul'']"
    | "length w = 4" "py_lower (take 3 w) \<in> set [''com'', ''lpt'']" "w ! 3 \<in> set ''0123456789''"
    unfolding matches_reserved_def by blast
  then show "is_reserved_name w"
  proof cases
    case 1
    then show ?thesis unfolding is_reserved_name_def lower_reserved_names by blast
  next
    case 2
    from 2(1) obtain a b c d where w: "w = [a, b, c, d]" using length4 by blast
    from 2(3) w have d: "lower_char d = d" "d \<in> set ''0123456789''"
      by (simp_all add: lower_digit)
    from 2(2) w have "py_lower [a, b, c] = ''com'' \<or> py_lower [a, b, c] = ''lpt''" by simp
    then have "py_lower w = ''com'' @ [d] \<or> py_lower w = ''lpt'' @ [d]"
      using w d(1) by (auto simp: py_lower_def)
    then show ?thesis
      unfolding is_reserved_name_def lower_reserved_names using d(2) by blast
  qed
qed

lemma is_reserved_imp: "is_reserved_name w \<Longrightarrow> matches_reserved w"
proof -
  assume "is_reserved_name w"
  then consider "py_lower w \<in> set [''con'', ''prn'', ''aux'', ''nul'']"
    | d where "d \<in> set ''0123456789''" "py_lower w = ''com'' @ [d]"
    | d where "d \<in> set ''0123456789''" "py_lower w = ''lpt'' @ [d]"
    unfolding is_reserved_name_def lower_reserved_names by blast
  then show "matches_reserved w"
  proof cases
    case 1
    then show ?thesis by (simp add: matches_reserved_def)
  next
    case 2
    from 2(2) have "length (py_lower w) = 4" by simp
    then have "length w = 4" by (simp add: py_lower_def)
    then obtain a b c e where w: "w = [a, b, c, e]" using length4 by blast
    from 2(2) w have l: "py_lower [a, b, c] = ''com''" "lower_char e = d"
      by (simp_all add: py_lower_def)
    with 2(1) have "e = d" using lower_char_digit[of e] by simp
    with l(1) w 2(1) show ?thesis by (simp add: matches_reserved_def)
  next
    case 3
    from 3(2) have "length (py_lower w) = 4" by simp
    then have "length w = 4" by (simp add: py_lower_def)
    then obtain a b c e where w: "w = [a, b, c, e]" using length4 by blast
    from 3(2) w have l: "py_lower [a, b, c] = ''lpt''" "lower_char e = d"
      by (simp_all add: py_lower_def)
    with 3(1) have "e = d" using lower_char_digit[of e] by simp
    with l(1) w 3(1) show ?thesis by (simp add: matches_reserved_def)
  qed
qed

lemma matches_reserved_iff: "matches_reserved w = is_reserved_name w"
  using matches_reserved_imp is_reserved_imp by blast

lemma matches_reserved_shape:
  assumes "matches_reserved w"
  shows "CHR ''/'' \<notin> set w" and "length w = 3 \<or> length w = 4"
proof -
  from assms consider "py_lower w \<in> set [''con'', ''prn'', ''aux'', ''nul'']"
    | d where "d \<in> set ''0123456789''" "py_lower w = ''com'' @ [d]"
    | d where "d \<in> set ''0123456789''" "py_lower w = ''lpt'' @ [d]"
    unfolding matches_reserved_iff is_reserved_name_def lower_reserved_names by blast
  note cases = this
  have slash: "CHR ''/'' \<in> set w \<Longrightarrow> CHR ''/'' \<in> set (py_lower w)"
    using lower_char_slash by (force simp: py_lower_def)
  from cases show "CHR ''/'' \<notin> set w"
  proof cases
    case 1
    then show ?thesis using slash by auto
  next
    case 2
    then show ?thesis using slash by auto
  next
    case 3
    then show ?thesis using slash by auto
  qed
  have len: "length (py_lower w) = length w" by (simp add: py_lower_def)
  from cases show "length w = 3 \<or> length w = 4"
  proof cases
    case 1
    then show ?thesis using len by auto
  next
    case 2
    then show ?thesis using len by auto
  next
    case 3
    then show ?thesis using len by auto
  qed
qed

lemma specials_folders_found:
  assumes "matches_reserved seg"
  shows "g_objReSpecialsFolders (pre @ ''/'' @ seg @ ''/'' @ post) \<noteq> None"
proof (induction pre)
  case Nil
  from matches_reserved_shape(2)[OF assms] show ?case
  proof
    assume "length seg = 3"
    then have "take 3 (seg @ ''/'' @ post) = seg" "drop 3 (seg @ ''/'' @ post) = ''/'' @ post"
      by simp_all
    with assms show ?thesis by simp
  next
    assume "length seg = 4"
    then have "take 4 (seg @ ''/'' @ post) = seg" "drop 4 (seg @ ''/'' @ post) = ''/'' @ post"
      by simp_all
    with assms show ?thesis by simp
  qed
next
  case (Cons p pre)
  then show ?case by simp
qed

lemma split_from_segment:
  "seg \<in> set (split_from ''/'' cur t) \<Longrightarrow>
     \<exists>pre post. ''/'' @ cur @ t @ ''/'' = pre @ ''/'' @ seg @ ''/'' @ post"
proof (induction t arbitrary: cur)
  case Nil
  then have "seg = cur" by simp
  then have "''/'' @ cur @ [] @ ''/'' = [] @ ''/'' @ seg @ ''/'' @ []" by simp
  then show ?case by blast
next
  case (Cons c t)
  show ?case
  proof (cases "c = CHR ''/''")
    case True
    with Cons.prems have "seg = cur \<or> seg \<in> set (split_from ''/'' [] t)" by simp
    then show ?thesis
    proof
      assume "seg = cur"
      with True have "''/'' @ cur @ (c # t) @ ''/'' = [] @ ''/'' @ seg @ ''/'' @ (t @ ''/'')" by simp
      then show ?thesis by blast
    next
      assume "seg \<in> set (split_from ''/'' [] t)"
      from Cons.IH[OF this] obtain pre post
        where "''/'' @ [] @ t @ ''/'' = pre @ ''/'' @ seg @ ''/'' @ post" by blast
      with True have "''/'' @ cur @ (c # t) @ ''/'' = (''/'' @ cur @ pre) @ ''/'' @ seg @ ''/'' @ post"
        by simp
      then show ?thesis by blast
    qed
  next
    case False
    with Cons.prems have "seg \<in> set (split_from ''/'' (cur @ [c]) t)" by simp
    from Cons.IH[OF this] show ?thesis by simp
  qed
qed

lemma folder_segment_rejected:
  assumes seg: "seg \<in> set (py_split strComponent ''/'')" and res: "matches_reserved seg"
  shows "g_objReSpecialsFolders (pad_folder strComponent) \<noteq> None"
proof -
  from split_from_segment[of seg "[]" strComponent] seg obtain pre post
    where eq: "''/'' @ strComponent @ ''/'' = pre @ ''/'' @ seg @ ''/'' @ post"
    by (auto simp: py_split_def)
  have seg_ne: "seg \<noteq> []"
    using matches_reserved_shape(2)[OF res] by auto
  then have seg_hd: "hd seg \<noteq> CHR ''/''"
    using matches_reserved_shape(1)[OF res] by (cases seg) auto
  show ?thesis
  proof (cases "take 1 strComponent = ''/''")
    case False
    then have "strComponent \<noteq> ''/''" by auto
    with False eq show ?thesis
      using specials_folders_found[OF res, of pre post] by (simp add: pad_folder_def)
  next
    case True
    then obtain r where r: "strComponent = CHR ''/'' # r" by (cases strComponent) auto
    show ?thesis
    proof (cases "r = ''/''")
      case True
      with r seg have "seg = []" by (simp add: py_split_def)
      with seg_ne show ?thesis by simp
    next
      case False
      have "pre \<noteq> []"
      proof
        assume "pre = []"
        with eq r have "CHR ''/'' # r @ ''/'' = seg @ ''/'' @ post" by simp
        with seg_ne seg_hd show False by (cases seg) auto
      qed
      then obtain p pre' where pre: "pre = p # pre'" by (cases pre) auto
      with eq r have "CHR ''/'' # r @ ''/'' = pre' @ ''/'' @ seg @ ''/'' @ post" by auto
      with r False show ?thesis
        using specials_folders_found[OF res, of pre' post] by (simp add: pad_folder_def)
    qed
  qed
qed

lemma validate_invalid_char:
  assumes "c \<in> set (if py_lower strType = ''folder'' then g_objReFolders else g_objReSession)"
    and "c \<in> set strComponent"
  shows "\<not> fst (ValidateSessionFolderComponent env s strComponent strType)"
proof -
  from assms obtain bad where
    "search_class (if py_lower strType = ''folder'' then g_objReFolders else g_objReSession)
        strComponent = Some bad"
    using search_class_Some by blast
  then show ?thesis
    by (simp add: ValidateSessionFolderComponent_def Let_def)
qed

lemma validate_reserved:
  assumes "has_getwindowsversion env"
    and "search_specials (py_lower strType) strComponent \<noteq> None"
  shows "\<not> fst (ValidateSessionFolderComponent env s strComponent strType)"
proof -
  from assms(2) obtain name where n: "search_specials (py_lower strType) strComponent = Some name"
    by blast
  show ?thesis
  proof (cases "search_class (if py_lower strType = ''folder'' then g_objReFolders else g_objReSession)
        strComponent")
    case None
    with n assms(1) show ?thesis by (simp add: ValidateSessionFolderComponent_def Let_def)
  next
    case (Some bad)
    then show ?thesis by (simp add: ValidateSessionFolderComponent_def Let_def)
  qed
qed

lemma validate_reserved_session:
  assumes "has_getwindowsversion env" and "py_lower strType \<noteq> ''folder''"
    and "matches_reserved strComponent"
  shows "\<not> fst (ValidateSessionFolderComponent env s strComponent strType)"
  using assms by (intro validate_reserved) (simp_all add: search_specials_def g_objReSpecialsSession_def)

lemma validate_reserved_folder:
  assumes "has_getwindowsversion env" and "py_lower strType = ''folder''"
    and "seg \<in> set (py_split strComponent ''/'')" and "matches_reserved seg"
  shows "\<not> fst (ValidateSessionFolderComponent env s strComponent strType)"
  using assms(1,2) folder_segment_rejected[OF assms(3,4)]
  by (intro validate_reserved) (simp_all add: search_specials_def)

text \<open>
  C8. Name validation rejects a session or folder component that holds one of the
  characters \<^verbatim>\<open>| : * ? " < >\<close>, and a session component that holds a slash. On
  Windows it rejects a session component that is a reserved name and a folder path one
  of whose segments between slashes is a reserved name, whatever the case of the
  letters. Where the system is not Windows the folder \<^verbatim>\<open>CON\<close> is accepted. A
  component is a folder when its kind, in lower case, is \<^verbatim>\<open>folder\<close>, and a session
  otherwise.
\<close>

theorem name_validation:
  "(c \<in> set [CHR ''|'', CHR '':'', CHR ''*'', CHR ''?'', CHR 0x22, CHR ''<'', CHR ''>'']
      \<and> c \<in> set strComponent
      \<longrightarrow> \<not> fst (ValidateSessionFolderComponent env s strComponent strType))
   \<and> (CHR ''/'' \<in> set strComponent \<and> py_lower strType \<noteq> ''folder''
      \<longrightarrow> \<not> fst (ValidateSessionFolderComponent env s strComponent strType))
   \<and> (has_getwindowsversion env \<and> py_lower strType \<noteq> ''folder'' \<and> is_reserved_name strComponent
      \<longrightarrow> \<not> fst (ValidateSessionFolderComponent env s strComponent strType))
   \<and> (has_getwindowsversion env \<and> py_lower strType = ''folder''
        \<and> (\<exists>seg \<in> set (py_split strComponent ''/''). is_reserved_name seg)
      \<longrightarrow> \<not> fst (ValidateSessionFolderComponent env s strComponent strType))
   \<and> (\<not> has_getwindowsversion env
      \<longrightarrow> fst (ValidateSessionFolderComponent env s ''CON'' ''folder''))"
proof (intro conjI impI)
  assume a: "c \<in> set [CHR ''|'', CHR '':'', CHR ''*'', CHR ''?'', CHR 0x22, CHR ''<'', CHR ''>'']
      \<and> c \<in> set strComponent"
  then have "c \<in> set g_objReFolders" and "c \<in> set g_objReSession"
    by (auto simp: g_objReFolders_def g_objReSession_def)
  with a show "\<not> fst (ValidateSessionFolderComponent env s strComponent strType)"
    by (intro validate_invalid_char[of c]) simp_all
next
  assume a: "CHR ''/'' \<in> set strComponent \<and> py_lower strType \<noteq> ''folder''"
  have "CHR ''/'' \<in> set g_objReSession" by (simp add: g_objReSession_def)
  with a show "\<not> fst (ValidateSessionFolderComponent env s strComponent strType)"
    by (intro validate_invalid_char[of "CHR ''/''"]) simp_all
next
  assume "has_getwindowsversion env \<and> py_lower strType \<noteq> ''folder'' \<and> is_reserved_name strComponent"
  then show "\<not> fst (ValidateSessionFolderComponent env s strComponent strType)"
    using validate_reserved_session by (simp add: matches_reserved_iff)
next
  assume "has_getwindowsversion env \<and> py_lower strType = ''folder''
        \<and> (\<exists>seg \<in> set (py_split strComponent ''/''). is_reserved_name seg)"
  then show "\<not> fst (ValidateSessionFolderComponent env s strComponent strType)"
    using validate_reserved_folder unfolding matches_reserved_iff by blast
next
  assume "\<not> has_getwindowsversion env"
  then show "fst (ValidateSessionFolderComponent env s ''CON'' ''folder'')"
    by (simp add: ValidateSessionFolderComponent_def py_lower_folder search_class_def g_objReFolders_def)
qed

theorem name_validation_witness:
  "\<not> fst (ValidateSessionFolderComponent (windows_env []) (initial_state example_store)
             ''a|b'' ''session'')
   \<and> \<not> fst (ValidateSessionFolderComponent (other_env []) (initial_state example_store)
             ''a|b'' ''folder'')
   \<and> \<not> fst (ValidateSessionFolderComponent (other_env []) (initial_state example_store)
             ''lab:1'' ''folder'')
   \<and> \<not> fst (ValidateSessionFolderComponent (other_env []) (initial_state example_store)
             ''lab*'' ''folder'')
   \<and> \<not> fst (ValidateSessionFolderComponent (other_env []) (initial_state example_store)
             ''lab?'' ''session'')
   \<and> \<not> fst (ValidateSessionFolderComponent (other_env []) (initial_state example_store)
             [CHR ''a'', CHR 0x22, CHR ''b''] ''folder'')
   \<and> \<not> fst (ValidateSessionFolderComponent (other_env []) (initial_state example_store)
             ''<lab'' ''folder'')
   \<and> \<not> fst (ValidateSessionFolderComponent (other_env []) (initial_state example_store)
             ''lab>'' ''session'')
   \<and> \<not> fst (ValidateSessionFolderComponent (windows_env []) (initial_state example_store)
             ''a/b'' ''session'')
   \<and> \<not> fst (ValidateSessionFolderComponent (windows_env []) (initial_state example_store)
             ''Con'' ''session'')
   \<and> \<not> fst (ValidateSessionFolderComponent (windows_env []) (initial_state example_store)
             ''sites/Com1/lab'' ''folder'')
   \<and> fst (ValidateSessionFolderComponent (other_env []) (initial_state example_store)
             ''CON'' ''folder'')"
proof -
  let ?w = "windows_env []" and ?o = "other_env []" and ?s = "initial_state example_store"
  let ?cls = "[CHR ''|'', CHR '':'', CHR ''*'', CHR ''?'', CHR 0x22, CHR ''<'', CHR ''>'']"
  have h1: "CHR ''|'' \<in> set ?cls \<and> CHR ''|'' \<in> set ''a|b''" by simp
  have h1b: "CHR '':'' \<in> set ?cls \<and> CHR '':'' \<in> set ''lab:1''" by simp
  have h1c: "CHR ''*'' \<in> set ?cls \<and> CHR ''*'' \<in> set ''lab*''" by simp
  have h1d: "CHR ''?'' \<in> set ?cls \<and> CHR ''?'' \<in> set ''lab?''" by simp
  have h1e: "CHR 0x22 \<in> set ?cls \<and> CHR 0x22 \<in> set [CHR ''a'', CHR 0x22, CHR ''b'']" by simp
  have h1f: "CHR ''<'' \<in> set ?cls \<and> CHR ''<'' \<in> set ''<lab''" by simp
  have h1g: "CHR ''>'' \<in> set ?cls \<and> CHR ''>'' \<in> set ''lab>''" by simp
  have h2: "CHR ''/'' \<in> set ''a/b'' \<and> py_lower ''session'' \<noteq> ''folder''"
    by code_simp
  have "matches_reserved ''Con''" and "matches_reserved ''Com1''"
    by code_simp+
  then have r: "is_reserved_name ''Con''" "is_reserved_name ''Com1''"
    by (simp_all only: matches_reserved_iff)
  have w: "has_getwindowsversion ?w"
    by (simp add: windows_env_def)
  have k: "py_lower ''session'' \<noteq> ''folder''" "py_lower ''folder'' = ''folder''"
    by code_simp+
  have "''Com1'' \<in> set (py_split ''sites/Com1/lab'' ''/'')"
    by code_simp
  with r(2) have "\<exists>seg \<in> set (py_split ''sites/Com1/lab'' ''/''). is_reserved_name seg"
    by blast
  with w k(2) have h4: "has_getwindowsversion ?w \<and> py_lower ''folder'' = ''folder''
            \<and> (\<exists>seg \<in> set (py_split ''sites/Com1/lab'' ''/''). is_reserved_name seg)"
    by blast
  from w k(1) r(1)
  have h3: "has_getwindowsversion ?w \<and> py_lower ''session'' \<noteq> ''folder'' \<and> is_reserved_name ''Con''"
    by blast
  have h5: "\<not> has_getwindowsversion ?o"
    by (simp add: other_env_def)
  from h1 name_validation[of "CHR ''|''" "''a|b''" ?w ?s "''session''"]
  have c1: "\<not> fst (ValidateSessionFolderComponent ?w ?s ''a|b'' ''session'')" by blast
  from h1 name_validation[of "CHR ''|''" "''a|b''" ?o ?s "''folder''"]
  have c1a: "\<not> fst (ValidateSessionFolderComponent ?o ?s ''a|b'' ''folder'')" by blast
  from h1b name_validation[of "CHR '':''" "''lab:1''" ?o ?s "''folder''"]
  have c1b: "\<not> fst (ValidateSessionFolderComponent ?o ?s ''lab:1'' ''folder'')" by blast
  from h1c name_validation[of "CHR ''*''" "''lab*''" ?o ?s "''folder''"]
  have c1c: "\<not> fst (ValidateSessionFolderComponent ?o ?s ''lab*'' ''folder'')" by blast
  from h1d name_validation[of "CHR ''?''" "''lab?''" ?o ?s "''session''"]
  have c1d: "\<not> fst (ValidateSessionFolderComponent ?o ?s ''lab?'' ''session'')" by blast
  from h1e name_validation[of "CHR 0x22" "[CHR ''a'', CHR 0x22, CHR ''b'']" ?o ?s "''folder''"]
  have c1e: "\<not> fst (ValidateSessionFolderComponent ?o ?s [CHR ''a'', CHR 0x22, CHR ''b''] ''folder'')"
    by blast
  from h1f name_validation[of "CHR ''<''" "''<lab''" ?o ?s "''folder''"]
  have c1f: "\<not> fst (ValidateSessionFolderComponent ?o ?s ''<lab'' ''folder'')" by blast
  from h1g name_validation[of "CHR ''>''" "''lab>''" ?o ?s "''session''"]
  have c1g: "\<not> fst (ValidateSessionFolderComponent ?o ?s ''lab>'' ''session'')" by blast
  from h2 name_validation[of "CHR ''|''" "''a/b''" ?w ?s "''session''"]
  have c2: "\<not> fst (ValidateSessionFolderComponent ?w ?s ''a/b'' ''session'')" by blast
  from h3 name_validation[of "CHR ''|''" "''Con''" ?w ?s "''session''"]
  have c3: "\<not> fst (ValidateSessionFolderComponent ?w ?s ''Con'' ''session'')" by blast
  from h4 name_validation[of "CHR ''|''" "''sites/Com1/lab''" ?w ?s "''folder''"]
  have c4: "\<not> fst (ValidateSessionFolderComponent ?w ?s ''sites/Com1/lab'' ''folder'')" by blast
  from h5 name_validation[of "CHR ''|''" "''x''" ?o ?s "''folder''"]
  have c5: "fst (ValidateSessionFolderComponent ?o ?s ''CON'' ''folder'')" by blast
  from c1 c1a c1b c1c c1d c1e c1f c1g c2 c3 c4 c5 show ?thesis by blast
qed

subsection \<open>The fields of a line\<close>

lemma set_py_strip: "set (py_strip t) \<subseteq> set t"
proof -
  have "set (py_strip t) \<subseteq> set (dropWhile py_isspace t)"
    unfolding py_strip_def using set_dropWhileD[of _ py_isspace "rev (dropWhile py_isspace t)"]
    by auto
  then show ?thesis using set_dropWhileD[of _ py_isspace t] by blast
qed

lemma py_lower_strip_lower: "py_lower (py_strip (py_lower v)) = py_strip (py_lower v)"
proof -
  have "\<forall>c \<in> set (py_strip (py_lower v)). lower_char c = c"
    using set_py_strip[of "py_lower v"] by (auto simp: py_lower_def lower_char_idem)
  then show ?thesis unfolding py_lower_def by (simp add: map_idI)
qed

lemma field_label_protocol:
  assumes "py_lower (py_strip fld) = ''protocol''"
  shows "process_field env s fld v = Inr (protocol_field s v)"
  using assms by (simp add: process_field_def)

lemma field_label_emulation:
  assumes "py_lower (py_strip fld) = ''emulation''"
  shows "process_field env s fld v = Inr (emulation_field env s v)"
  using assms by (simp add: process_field_def)

lemma field_label_hostname:
  assumes "py_lower (py_strip fld) = ''hostname''"
  shows "process_field env s fld v = Inr (hostname_field s v)"
  using assms by (simp add: process_field_def)

lemma field_label_port:
  assumes "py_lower (py_strip fld) = ''port''"
  shows "process_field env s fld v = Inr (port_field s v)"
  using assms by (simp add: process_field_def)

lemma protocol_field_cases:
  fixes s v
  defines "t \<equiv> py_strip (py_lower v)" and "r \<equiv> protocol_field s v"
  shows "(map_of protocol_table t = Some name \<longrightarrow>
            strProtocol r = name \<and> bSaveSession r = bSaveSession s \<and> g_strErrors r = g_strErrors s)"
    and "(py_in ''rdp'' t \<longrightarrow>
            strProtocol r = ''RDP'' \<and> bSaveSession r = bSaveSession s \<and> g_strErrors r = g_strErrors s)"
    and "(t \<in> set unsupported_protocols \<longrightarrow>
            \<not> bSaveSession r \<and>
            g_strErrors r = UnsupportedProtocol (py_strip v) (g_nCurLineNumber s) (g_strLine s) # g_strErrors s)"
    and "(map_of protocol_table t = None \<and> \<not> py_in ''rdp'' t \<and> t \<notin> set unsupported_protocols
            \<and> g_strDefaultProtocol s \<noteq> [] \<longrightarrow>
            strProtocol r = g_strDefaultProtocol s \<and> bSaveSession r = bSaveSession s
            \<and> g_strErrors r = g_strErrors s)"
    and "(map_of protocol_table t = None \<and> \<not> py_in ''rdp'' t \<and> t \<notin> set unsupported_protocols
            \<and> g_strDefaultProtocol s = [] \<longrightarrow>
            \<not> bSaveSession r \<and>
            g_strErrors r = InvalidProtocol t (g_nCurLineNumber s) (g_strLine s) # g_strErrors s)"
  unfolding t_def r_def
  by (auto simp: protocol_field_def Let_def add_error_def protocol_table_def
                 unsupported_protocols_def py_lower_strip_lower)

lemma ssh2_tokens:
  "py_strip (py_lower ''ssh2'') = ''ssh2''" "py_strip (py_lower ''Ssh2'') = ''ssh2''"
  "py_strip (py_lower ''SSH2'') = ''ssh2''"
  by code_simp+

lemma emulation_field_frame: "fields_frame (emulation_field env s v) = fields_frame s"
  by (simp add: emulation_field_def fields_frame_def add_error_def Let_def)

lemma protocol_field_frame: "fields_frame (protocol_field s v) = fields_frame s"
  by (simp add: protocol_field_def fields_frame_def add_error_def Let_def)

lemma port_field_frame: "fields_frame (port_field s v) = fields_frame s"
  by (simp add: port_field_def fields_frame_def add_error_def Let_def)

lemma hostname_field_frame: "fields_frame (hostname_field s v) = fields_frame s"
  by (simp add: hostname_field_def fields_frame_def add_error_def Let_def)

lemma folder_field_frame: "fields_frame (folder_field s v) = fields_frame s"
  by (simp add: folder_field_def fields_frame_def Let_def)

lemma description_field_frame: "fields_frame (description_field s v) = fields_frame s"
  by (simp add: description_field_def fields_frame_def)

lemmas field_frames = emulation_field_frame protocol_field_frame port_field_frame
  hostname_field_frame folder_field_frame description_field_frame

lemma process_field_frame:
  "process_field env s fld v = Inr s' \<Longrightarrow> fields_frame s' = fields_frame s"
  by (auto simp: process_field_def Let_def field_frames split: if_splits)
     (simp_all add: fields_frame_def)

lemma process_fields_frame:
  "process_fields env s fvs = Inr s' \<Longrightarrow> fields_frame s' = fields_frame s"
proof (induction fvs arbitrary: s)
  case Nil
  then show ?case by simp
next
  case (Cons fv fvs)
  then show ?case
    by (auto split: sum.splits dest!: process_field_frame)
qed

lemma fields_frame_proj:
  assumes "fields_frame s' = fields_frame s"
  shows "sessions s' = sessions s" "g_strLine s' = g_strLine s"
    "g_nCurLineNumber s' = g_nCurLineNumber s" "g_vFieldsArray s' = g_vFieldsArray s"
    "vSessionInfo s' = vSessionInfo s" "g_strDelimiter s' = g_strDelimiter s"
    "g_strDefaultProtocol s' = g_strDefaultProtocol s" "g_strDefaultFolder s' = g_strDefaultFolder s"
    "g_strDefaultUsername s' = g_strDefaultUsername s"
    "g_bOverwriteExistingSessions s' = g_bOverwriteExistingSessions s"
    "g_bUseDefaultSessionOptions s' = g_bUseDefaultSessionOptions s"
    "g_strBogusLinesNotImported s' = g_strBogusLinesNotImported s"
    "g_strSessionsCreated s' = g_strSessionsCreated s" "g_nSessionsCreated s' = g_nSessionsCreated s"
    "g_nDataLines s' = g_nDataLines s" "bFoundHeader s' = bFoundHeader s"
    "strFieldDesignations s' = strFieldDesignations s" "strSessionPath s' = strSessionPath s"
proof -
  have "sessions (fields_frame s') = sessions (fields_frame s)" using assms by simp
  then show "sessions s' = sessions s" by (simp add: fields_frame_def)
  have "g_strLine (fields_frame s') = g_strLine (fields_frame s)" using assms by simp
  then show "g_strLine s' = g_strLine s" by (simp add: fields_frame_def)
  have "g_nCurLineNumber (fields_frame s') = g_nCurLineNumber (fields_frame s)" using assms by simp
  then show "g_nCurLineNumber s' = g_nCurLineNumber s" by (simp add: fields_frame_def)
  have "g_vFieldsArray (fields_frame s') = g_vFieldsArray (fields_frame s)" using assms by simp
  then show "g_vFieldsArray s' = g_vFieldsArray s" by (simp add: fields_frame_def)
  have "vSessionInfo (fields_frame s') = vSessionInfo (fields_frame s)" using assms by simp
  then show "vSessionInfo s' = vSessionInfo s" by (simp add: fields_frame_def)
  have "g_strDelimiter (fields_frame s') = g_strDelimiter (fields_frame s)" using assms by simp
  then show "g_strDelimiter s' = g_strDelimiter s" by (simp add: fields_frame_def)
  have "g_strDefaultProtocol (fields_frame s') = g_strDefaultProtocol (fields_frame s)" using assms by simp
  then show "g_strDefaultProtocol s' = g_strDefaultProtocol s" by (simp add: fields_frame_def)
  have "g_strDefaultFolder (fields_frame s') = g_strDefaultFolder (fields_frame s)" using assms by simp
  then show "g_strDefaultFolder s' = g_strDefaultFolder s" by (simp add: fields_frame_def)
  have "g_strDefaultUsername (fields_frame s') = g_strDefaultUsername (fields_frame s)" using assms by simp
  then show "g_strDefaultUsername s' = g_strDefaultUsername s" by (simp add: fields_frame_def)
  have "g_bOverwriteExistingSessions (fields_frame s') = g_bOverwriteExistingSessions (fields_frame s)"
    using assms by simp
  then show "g_bOverwriteExistingSessions s' = g_bOverwriteExistingSessions s"
    by (simp add: fields_frame_def)
  have "g_bUseDefaultSessionOptions (fields_frame s') = g_bUseDefaultSessionOptions (fields_frame s)"
    using assms by simp
  then show "g_bUseDefaultSessionOptions s' = g_bUseDefaultSessionOptions s"
    by (simp add: fields_frame_def)
  have "g_strBogusLinesNotImported (fields_frame s') = g_strBogusLinesNotImported (fields_frame s)"
    using assms by simp
  then show "g_strBogusLinesNotImported s' = g_strBogusLinesNotImported s"
    by (simp add: fields_frame_def)
  have "g_strSessionsCreated (fields_frame s') = g_strSessionsCreated (fields_frame s)"
    using assms by simp
  then show "g_strSessionsCreated s' = g_strSessionsCreated s" by (simp add: fields_frame_def)
  have "g_nSessionsCreated (fields_frame s') = g_nSessionsCreated (fields_frame s)"
    using assms by simp
  then show "g_nSessionsCreated s' = g_nSessionsCreated s" by (simp add: fields_frame_def)
  have "g_nDataLines (fields_frame s') = g_nDataLines (fields_frame s)" using assms by simp
  then show "g_nDataLines s' = g_nDataLines s" by (simp add: fields_frame_def)
  have "bFoundHeader (fields_frame s') = bFoundHeader (fields_frame s)" using assms by simp
  then show "bFoundHeader s' = bFoundHeader s" by (simp add: fields_frame_def)
  have "strFieldDesignations (fields_frame s') = strFieldDesignations (fields_frame s)"
    using assms by simp
  then show "strFieldDesignations s' = strFieldDesignations s" by (simp add: fields_frame_def)
  have "strSessionPath (fields_frame s') = strSessionPath (fields_frame s)" using assms by simp
  then show "strSessionPath s' = strSessionPath s" by (simp add: fields_frame_def)
qed

lemma process_field_cases:
  assumes "process_field env s fld v = Inr s'"
  shows "s' = s\<lparr>strSessionName := py_strip v\<rparr> \<or> s' = s\<lparr>strLogonScript := py_strip v\<rparr>
    \<or> s' = port_field s v \<or> s' = protocol_field s v \<or> s' = hostname_field s v
    \<or> s' = s\<lparr>strUserName := py_strip v\<rparr> \<or> s' = emulation_field env s v
    \<or> s' = folder_field s v \<or> s' = description_field s v \<or> s' = s\<lparr>strDomain := py_strip v\<rparr>"
  using assms by (simp add: process_field_def Let_def split: if_splits)

lemma step_save:
  "bSaveSession (port_field s v) \<longrightarrow> bSaveSession s"
  "bSaveSession (protocol_field s v) \<longrightarrow> bSaveSession s"
  "bSaveSession (hostname_field s v) \<longrightarrow> bSaveSession s"
  "bSaveSession (emulation_field env s v) \<longrightarrow> bSaveSession s"
  "bSaveSession (folder_field s v) = bSaveSession s"
  "bSaveSession (description_field s v) = bSaveSession s"
  by (simp_all add: port_field_def protocol_field_def hostname_field_def emulation_field_def
        folder_field_def description_field_def add_error_def Let_def)

lemma step_errors:
  "\<exists>es. g_strErrors (port_field s v) = es @ g_strErrors s"
  "\<exists>es. g_strErrors (protocol_field s v) = es @ g_strErrors s"
  "\<exists>es. g_strErrors (hostname_field s v) = es @ g_strErrors s"
  "\<exists>es. g_strErrors (emulation_field env s v) = es @ g_strErrors s"
  "g_strErrors (folder_field s v) = g_strErrors s"
  "g_strErrors (description_field s v) = g_strErrors s"
  by (simp_all add: port_field_def protocol_field_def hostname_field_def emulation_field_def
        folder_field_def description_field_def add_error_def Let_def)

lemma process_field_mono:
  assumes "process_field env s fld v = Inr s'"
  shows "bSaveSession s' \<longrightarrow> bSaveSession s" and "\<exists>es. g_strErrors s' = es @ g_strErrors s"
proof -
  from process_field_cases[OF assms]
  consider "s' = s\<lparr>strSessionName := py_strip v\<rparr>" | "s' = s\<lparr>strLogonScript := py_strip v\<rparr>"
    | "s' = port_field s v" | "s' = protocol_field s v" | "s' = hostname_field s v"
    | "s' = s\<lparr>strUserName := py_strip v\<rparr>" | "s' = emulation_field env s v"
    | "s' = folder_field s v" | "s' = description_field s v" | "s' = s\<lparr>strDomain := py_strip v\<rparr>"
    by blast
  then show "bSaveSession s' \<longrightarrow> bSaveSession s"
  proof cases
    case 3 then show ?thesis using step_save(1) by blast
  next
    case 4 then show ?thesis using step_save(2) by blast
  next
    case 5 then show ?thesis using step_save(3) by blast
  next
    case 7 then show ?thesis using step_save(4) by blast
  next
    case 8 then show ?thesis using step_save(5) by blast
  next
    case 9 then show ?thesis using step_save(6) by blast
  qed simp_all
  from process_field_cases[OF assms]
  consider "s' = s\<lparr>strSessionName := py_strip v\<rparr>" | "s' = s\<lparr>strLogonScript := py_strip v\<rparr>"
    | "s' = port_field s v" | "s' = protocol_field s v" | "s' = hostname_field s v"
    | "s' = s\<lparr>strUserName := py_strip v\<rparr>" | "s' = emulation_field env s v"
    | "s' = folder_field s v" | "s' = description_field s v" | "s' = s\<lparr>strDomain := py_strip v\<rparr>"
    by blast
  then show "\<exists>es. g_strErrors s' = es @ g_strErrors s"
  proof cases
    case 3 then show ?thesis using step_errors(1) by blast
  next
    case 4 then show ?thesis using step_errors(2) by blast
  next
    case 5 then show ?thesis using step_errors(3) by blast
  next
    case 7 then show ?thesis using step_errors(4) by blast
  next
    case 8 then show ?thesis by (simp add: step_errors(5))
  next
    case 9 then show ?thesis by (simp add: step_errors(6))
  qed simp_all
qed

lemma process_fields_mono:
  assumes "process_fields env s fvs = Inr s'"
  shows "bSaveSession s' \<longrightarrow> bSaveSession s" and "\<exists>es. g_strErrors s' = es @ g_strErrors s"
  using assms
proof (induction fvs arbitrary: s)
  case Nil
  { case 1 then show ?case by simp }
  { case 2 then show ?case by simp }
next
  case (Cons fv fvs)
  { case 1
    then obtain s1 where a: "process_field env s (fst fv) (snd fv) = Inr s1"
      and b: "process_fields env s1 fvs = Inr s'" by (auto split: sum.splits)
    from Cons.IH(1)[OF b] process_field_mono(1)[OF a] show ?case by blast }
  { case 2
    then obtain s1 where a: "process_field env s (fst fv) (snd fv) = Inr s1"
      and b: "process_fields env s1 fvs = Inr s'" by (auto split: sum.splits)
    from Cons.IH(2)[OF b] process_field_mono(2)[OF a] show ?case by auto }
qed

subsection \<open>After the fields: validators and the gate\<close>

lemma validate_name_result:
  "ValidateSessionFolderComponent env s c t = (True, s)
   \<or> (\<exists>e. ValidateSessionFolderComponent env s c t = (False, reject_line e s))"
  by (auto simp: ValidateSessionFolderComponent_def Let_def split: option.splits)

lemma validate_protocol_result:
  "ValidateProtocolComponent env s p = (True, s)
   \<or> (\<exists>e. ValidateProtocolComponent env s p = (False, reject_line e s))"
  by (auto simp: ValidateProtocolComponent_def)

lemma finish_record_alt:
  "finish_record env s =
     (let s1 = (if strSessionName s = [] then s\<lparr>strSessionName := strHostName s\<rparr> else s);
          s2 = after_check (ValidateSessionFolderComponent env s1 (strSessionName s1) ''session'');
          s3 = (if strFolderOrig s2 = [] then s2\<lparr>strFolderOrig := g_strDefaultFolder s2\<rparr>
                else s2);
          s4 = after_check (ValidateSessionFolderComponent env s3 (strFolderOrig s3) ''folder'')
      in after_check (ValidateProtocolComponent env s4 (strProtocol s4)))"
  by (simp add: finish_record_def after_check_def Let_def)

lemma after_check_name:
  "after_check (ValidateSessionFolderComponent env s c t) = s
   \<or> (\<exists>e. after_check (ValidateSessionFolderComponent env s c t)
            = (reject_line e s)\<lparr>bSaveSession := False\<rparr>)"
  using validate_name_result[of env s c t] by (auto simp: after_check_def)

lemma after_check_protocol:
  "after_check (ValidateProtocolComponent env s p) = s
   \<or> (\<exists>e. after_check (ValidateProtocolComponent env s p)
            = (reject_line e s)\<lparr>bSaveSession := False\<rparr>)"
  using validate_protocol_result[of env s p] by (auto simp: after_check_def)

lemma after_check_name_props:
  fixes env s c t
  defines "r \<equiv> after_check (ValidateSessionFolderComponent env s c t)"
  shows "finish_frame r = finish_frame s" "bSaveSession r \<longrightarrow> bSaveSession s"
    "\<exists>es. g_strErrors r = es @ g_strErrors s" "strSessionName r = strSessionName s"
    "strFolderOrig r = strFolderOrig s"
    "\<exists>b. g_strBogusLinesNotImported r = g_strBogusLinesNotImported s @ b"
  using after_check_name[of env s c t] unfolding r_def
  by (auto simp: finish_frame_def reject_line_def)

lemma after_check_protocol_props:
  fixes env s p
  defines "r \<equiv> after_check (ValidateProtocolComponent env s p)"
  shows "finish_frame r = finish_frame s" "bSaveSession r \<longrightarrow> bSaveSession s"
    "\<exists>es. g_strErrors r = es @ g_strErrors s" "strSessionName r = strSessionName s"
    "strFolderOrig r = strFolderOrig s"
    "\<exists>b. g_strBogusLinesNotImported r = g_strBogusLinesNotImported s @ b"
  using after_check_protocol[of env s p] unfolding r_def
  by (auto simp: finish_frame_def reject_line_def)

lemma finish_record_frame: "finish_frame (finish_record env s) = finish_frame s"
proof -
  have "finish_frame (if strSessionName s = [] then s\<lparr>strSessionName := strHostName s\<rparr> else s)
          = finish_frame s"
    by (simp add: finish_frame_def)
  moreover have "finish_frame (if strFolderOrig x = [] then x\<lparr>strFolderOrig := g_strDefaultFolder x\<rparr>
                                else x) = finish_frame x" for x
    by (simp add: finish_frame_def)
  ultimately show ?thesis
    unfolding finish_record_alt Let_def
    by (simp only: after_check_name_props(1) after_check_protocol_props(1))
qed

lemma finish_record_save: "bSaveSession (finish_record env s) \<Longrightarrow> bSaveSession s"
proof -
  have a: "bSaveSession (if strFolderOrig x = [] then x\<lparr>strFolderOrig := g_strDefaultFolder x\<rparr>
                          else x) = bSaveSession x" for x
    by simp
  have b: "bSaveSession (if strSessionName s = [] then s\<lparr>strSessionName := strHostName s\<rparr> else s)
             = bSaveSession s"
    by simp
  assume "bSaveSession (finish_record env s)"
  then show ?thesis
    unfolding finish_record_alt Let_def
    using after_check_protocol_props(2) after_check_name_props(2) a b by metis
qed

lemma finish_record_errors: "\<exists>es. g_strErrors (finish_record env s) = es @ g_strErrors s"
proof -
  define s1 where "s1 = (if strSessionName s = [] then s\<lparr>strSessionName := strHostName s\<rparr> else s)"
  define s2 where "s2 = after_check (ValidateSessionFolderComponent env s1 (strSessionName s1) ''session'')"
  define s3 where "s3 = (if strFolderOrig s2 = [] then s2\<lparr>strFolderOrig := g_strDefaultFolder s2\<rparr>
                else s2)"
  define s4 where "s4 = after_check (ValidateSessionFolderComponent env s3 (strFolderOrig s3) ''folder'')"
  have f: "finish_record env s = after_check (ValidateProtocolComponent env s4 (strProtocol s4))"
    by (simp add: finish_record_alt s1_def s2_def s3_def s4_def Let_def)
  have e1: "g_strErrors s1 = g_strErrors s" by (simp add: s1_def)
  obtain es2 where e2: "g_strErrors s2 = es2 @ g_strErrors s1"
    using after_check_name_props(3) s2_def by blast
  have e3: "g_strErrors s3 = g_strErrors s2" by (simp add: s3_def)
  obtain es4 where e4: "g_strErrors s4 = es4 @ g_strErrors s3"
    using after_check_name_props(3) s4_def by blast
  obtain es5 where e5: "g_strErrors (finish_record env s) = es5 @ g_strErrors s4"
    using after_check_protocol_props(3) f by metis
  from e1 e2 e3 e4 e5 have "g_strErrors (finish_record env s) = (es5 @ es4 @ es2) @ g_strErrors s"
    by simp
  then show ?thesis by blast
qed

lemma finish_record_session_name:
  "strSessionName (finish_record env s)
     = (if strSessionName s = [] then strHostName s else strSessionName s)"
  unfolding finish_record_alt Let_def
  by (simp add: after_check_name_props(4) after_check_protocol_props(4))

lemma finish_record_keeps:
  "sessions (finish_record env s) = sessions s"
  "strHostName (finish_record env s) = strHostName s"
  "strPort (finish_record env s) = strPort s"
  "strProtocol (finish_record env s) = strProtocol s"
  "g_nSessionsCreated (finish_record env s) = g_nSessionsCreated s"
  "g_nCurLineNumber (finish_record env s) = g_nCurLineNumber s"
  "g_strLine (finish_record env s) = g_strLine s"
  using arg_cong[OF finish_record_frame[of env s], of sessions]
        arg_cong[OF finish_record_frame[of env s], of strHostName]
        arg_cong[OF finish_record_frame[of env s], of strPort]
        arg_cong[OF finish_record_frame[of env s], of strProtocol]
        arg_cong[OF finish_record_frame[of env s], of g_nSessionsCreated]
        arg_cong[OF finish_record_frame[of env s], of g_nCurLineNumber]
        arg_cong[OF finish_record_frame[of env s], of g_strLine]
  by (simp_all add: finish_frame_def)

lemma process_fields_member:
  assumes "process_fields env s fvs = Inr s'" and "(fld, v) \<in> set fvs"
  shows "\<exists>s1 s2. process_field env s1 fld v = Inr s2 \<and> fields_frame s1 = fields_frame s
           \<and> (bSaveSession s' \<longrightarrow> bSaveSession s2)
           \<and> (\<exists>es. g_strErrors s' = es @ g_strErrors s2)"
  using assms
proof (induction fvs arbitrary: s)
  case Nil
  then show ?case by simp
next
  case (Cons fv fvs)
  from Cons.prems(1) obtain s1 where a: "process_field env s (fst fv) (snd fv) = Inr s1"
    and b: "process_fields env s1 fvs = Inr s'" by (auto split: sum.splits)
  show ?case
  proof (cases "(fld, v) = fv")
    case True
    with a have "process_field env s fld v = Inr s1" by auto
    with process_fields_mono[OF b] show ?thesis by blast
  next
    case False
    with Cons.prems(2) have "(fld, v) \<in> set fvs" by auto
    from Cons.IH[OF b this] obtain t1 t2 where
      "process_field env t1 fld v = Inr t2" "fields_frame t1 = fields_frame s1"
      "bSaveSession s' \<longrightarrow> bSaveSession t2" "\<exists>es. g_strErrors s' = es @ g_strErrors t2"
      by blast
    with process_field_frame[OF a] show ?thesis by metis
  qed
qed

subsection \<open>Creating the session\<close>

lemma resolve_path_frame: "create_frame (resolve_path s) = create_frame s"
  by (simp add: resolve_path_def create_frame_def Let_def)

lemma session_path_frame: "create_frame (session_path env s) = create_frame s"
  using resolve_path_frame[of s]
  by (simp add: session_path_def Let_def) (simp add: create_frame_def)

lemma default_port_frame: "create_frame (default_port s) = create_frame s"
  by (simp add: default_port_def create_frame_def split: option.splits)

lemma register_session_frame: "create_frame (register_session s c) = create_frame s"
  by (simp add: register_session_def create_frame_def)

lemma configure_session_frame:
  "configure_session env s c = Inr s' \<Longrightarrow> create_frame s' = create_frame s"
  "configure_session env s c = Inl (a, s') \<Longrightarrow> create_frame s' = create_frame s"
  by (auto simp: configure_session_def Let_def default_port_frame register_session_frame
           split: if_splits)

lemma create_session_frame:
  "create_session env s = Inr s' \<Longrightarrow> create_frame s' = create_frame s"
  "create_session env s = Inl (a, s') \<Longrightarrow> create_frame s' = create_frame s"
proof -
  have k: "create_frame (x\<lparr>sessions := m\<rparr>) = create_frame x" for x m
    by (simp add: create_frame_def)
  show "create_session env s = Inr s' \<Longrightarrow> create_frame s' = create_frame s"
    using session_path_frame[of env s]
    by (auto simp: create_session_def Let_def k split: option.splits if_splits
             dest!: configure_session_frame(1))
  show "create_session env s = Inl (a, s') \<Longrightarrow> create_frame s' = create_frame s"
    using session_path_frame[of env s]
    by (auto simp: create_session_def Let_def k split: option.splits if_splits
             dest!: configure_session_frame(2))
qed

lemma create_session_keeps:
  assumes "create_session env s = Inr s'"
  shows "g_strErrors s' = g_strErrors s" "strProtocol s' = strProtocol s"
    "g_strBogusLinesNotImported s' = g_strBogusLinesNotImported s"
    "g_strLine s' = g_strLine s" "g_nCurLineNumber s' = g_nCurLineNumber s"
    "bSaveSession s' = bSaveSession s"
  using arg_cong[OF create_session_frame(1)[OF assms], of g_strErrors]
        arg_cong[OF create_session_frame(1)[OF assms], of strProtocol]
        arg_cong[OF create_session_frame(1)[OF assms], of g_strBogusLinesNotImported]
        arg_cong[OF create_session_frame(1)[OF assms], of g_strLine]
        arg_cong[OF create_session_frame(1)[OF assms], of g_nCurLineNumber]
        arg_cong[OF create_session_frame(1)[OF assms], of bSaveSession]
  by (simp_all add: create_frame_def)

lemma data_line_equal_count:
  assumes "process_data_line env t = Inr t'"
    and "length (py_split (g_strLine t) (g_strDelimiter t)) = length (g_vFieldsArray t)"
  shows "\<exists>w. process_fields env
               (t\<lparr>vSessionInfo := py_split (g_strLine t) (g_strDelimiter t), bSaveSession := True\<rparr>)
               (zip (g_vFieldsArray t) (py_split (g_strLine t) (g_strDelimiter t))) = Inr w
             \<and> (if bSaveSession (finish_record env w)
                 then create_session env (finish_record env w) = Inr t'
                 else t' = finish_record env w)"
  using assms
  by (auto simp: process_data_line_def normalize_line_def Let_def split: if_splits sum.splits)

lemma data_line_field:
  assumes run: "process_data_line env t = Inr t'"
    and len: "length (py_split (g_strLine t) (g_strDelimiter t)) = length (g_vFieldsArray t)"
    and mem: "(fld, v) \<in> set (zip (g_vFieldsArray t) (py_split (g_strLine t) (g_strDelimiter t)))"
  shows "\<exists>s1 s2. process_field env s1 fld v = Inr s2
           \<and> g_nCurLineNumber s1 = g_nCurLineNumber t \<and> g_strLine s1 = g_strLine t
           \<and> g_strDefaultProtocol s1 = g_strDefaultProtocol t
           \<and> (\<not> bSaveSession s2 \<longrightarrow>
                 sessions t' = sessions t \<and> g_nSessionsCreated t' = g_nSessionsCreated t
                 \<and> g_strSessionsCreated t' = g_strSessionsCreated t)
           \<and> (\<exists>es. g_strErrors t' = es @ g_strErrors s2)"
proof -
  let ?t1 = "t\<lparr>vSessionInfo := py_split (g_strLine t) (g_strDelimiter t), bSaveSession := True\<rparr>"
  from data_line_equal_count[OF run len] obtain w where
    w: "process_fields env ?t1 (zip (g_vFieldsArray t) (py_split (g_strLine t) (g_strDelimiter t))) = Inr w"
    and fin: "if bSaveSession (finish_record env w)
              then create_session env (finish_record env w) = Inr t'
              else t' = finish_record env w"
    by blast
  from process_fields_member[OF w mem] obtain s1 s2 es where
    f: "process_field env s1 fld v = Inr s2" and fr: "fields_frame s1 = fields_frame ?t1"
    and sv: "bSaveSession w \<longrightarrow> bSaveSession s2" and er: "g_strErrors w = es @ g_strErrors s2"
    by blast
  have t1: "fields_frame ?t1 = fields_frame (t\<lparr>vSessionInfo := py_split (g_strLine t) (g_strDelimiter t)\<rparr>)"
    by (simp add: fields_frame_def)
  note p1 = fields_frame_proj[OF fr[unfolded t1]]
  note pw = fields_frame_proj[OF process_fields_frame[OF w, unfolded t1]]
  obtain es2 where er2: "g_strErrors (finish_record env w) = es2 @ g_strErrors w"
    using finish_record_errors by blast
  have a: "g_nCurLineNumber s1 = g_nCurLineNumber t" "g_strLine s1 = g_strLine t"
    "g_strDefaultProtocol s1 = g_strDefaultProtocol t"
    using p1(2,3,7) by simp_all
  have b: "\<not> bSaveSession s2 \<longrightarrow>
             sessions t' = sessions t \<and> g_nSessionsCreated t' = g_nSessionsCreated t
             \<and> g_strSessionsCreated t' = g_strSessionsCreated t"
  proof
    assume "\<not> bSaveSession s2"
    with sv have "\<not> bSaveSession w" by blast
    then have "\<not> bSaveSession (finish_record env w)" using finish_record_save by blast
    with fin have "t' = finish_record env w" by simp
    then show "sessions t' = sessions t \<and> g_nSessionsCreated t' = g_nSessionsCreated t
               \<and> g_strSessionsCreated t' = g_strSessionsCreated t"
      using finish_record_keeps(1,5)[of env w] pw(1,13,14)
        arg_cong[OF finish_record_frame[of env w], of g_strSessionsCreated]
      by (simp add: finish_frame_def)
  qed
  have c: "\<exists>es. g_strErrors t' = es @ g_strErrors s2"
  proof (cases "bSaveSession (finish_record env w)")
    case True
    with fin have "create_session env (finish_record env w) = Inr t'" by simp
    from create_session_keeps(1)[OF this] er er2 show ?thesis by simp
  next
    case False
    with fin er er2 show ?thesis by simp
  qed
  from f a b c show ?thesis by blast
qed

lemma finish_record_last:
  "\<exists>s4. finish_record env s = after_check (ValidateProtocolComponent env s4 (strProtocol s4))
        \<and> finish_frame s4 = finish_frame s"
proof -
  define s1 where "s1 = (if strSessionName s = [] then s\<lparr>strSessionName := strHostName s\<rparr> else s)"
  define s2 where "s2 = after_check (ValidateSessionFolderComponent env s1 (strSessionName s1) ''session'')"
  define s3 where "s3 = (if strFolderOrig s2 = [] then s2\<lparr>strFolderOrig := g_strDefaultFolder s2\<rparr>
                else s2)"
  define s4 where "s4 = after_check (ValidateSessionFolderComponent env s3 (strFolderOrig s3) ''folder'')"
  have f: "finish_record env s = after_check (ValidateProtocolComponent env s4 (strProtocol s4))"
    by (simp add: finish_record_alt s1_def s2_def s3_def s4_def Let_def)
  have "finish_frame s1 = finish_frame s" by (simp add: s1_def finish_frame_def)
  moreover have "finish_frame s2 = finish_frame s1"
    unfolding s2_def by (rule after_check_name_props(1))
  moreover have "finish_frame s3 = finish_frame s2" by (simp add: s3_def finish_frame_def)
  moreover have "finish_frame s4 = finish_frame s3"
    unfolding s4_def by (rule after_check_name_props(1))
  ultimately have "finish_frame s4 = finish_frame s" by simp
  with f show ?thesis by blast
qed

lemma protocol_gate:
  assumes "py_in ''rdp'' (py_lower p)"
  shows "fst (ValidateProtocolComponent env s p) = (9 \<le> g_nMajorVersion env \<and> platform_win32 env)"
    and "\<not> (9 \<le> g_nMajorVersion env \<and> platform_win32 env) \<Longrightarrow>
           snd (ValidateProtocolComponent env s p) =
             reject_line ((if g_nMajorVersion env < 9 then RdpNeedsVersion9 else RdpWindowsOnly)
                            (g_nCurLineNumber s) (g_strLine s)) s"
  using assms by (auto simp: ValidateProtocolComponent_def)

lemma finish_record_gate:
  assumes rdp: "py_in ''rdp'' (py_lower (strProtocol s))"
  shows "bSaveSession (finish_record env s) \<longrightarrow> 9 \<le> g_nMajorVersion env \<and> platform_win32 env"
    and "\<not> (9 \<le> g_nMajorVersion env \<and> platform_win32 env) \<longrightarrow>
           (\<exists>es. g_strErrors (finish_record env s) =
                    (if g_nMajorVersion env < 9 then RdpNeedsVersion9 else RdpWindowsOnly)
                       (g_nCurLineNumber s) (g_strLine s) # es)
           \<and> (\<exists>b. g_strBogusLinesNotImported (finish_record env s) = b @ crlf @ g_strLine s)"
proof -
  obtain s4 where f: "finish_record env s = after_check (ValidateProtocolComponent env s4 (strProtocol s4))"
    and fr: "finish_frame s4 = finish_frame s"
    using finish_record_last by blast
  have k: "strProtocol s4 = strProtocol s" "g_nCurLineNumber s4 = g_nCurLineNumber s"
    "g_strLine s4 = g_strLine s"
    using arg_cong[OF fr, of strProtocol] arg_cong[OF fr, of g_nCurLineNumber]
      arg_cong[OF fr, of g_strLine]
    by (simp_all add: finish_frame_def)
  from rdp k have rdp4: "py_in ''rdp'' (py_lower (strProtocol s4))" by simp
  show "bSaveSession (finish_record env s) \<longrightarrow> 9 \<le> g_nMajorVersion env \<and> platform_win32 env"
    using protocol_gate(1)[OF rdp4, of env s4] f by (auto simp: after_check_def split: if_splits)
  show "\<not> (9 \<le> g_nMajorVersion env \<and> platform_win32 env) \<longrightarrow>
           (\<exists>es. g_strErrors (finish_record env s) =
                    (if g_nMajorVersion env < 9 then RdpNeedsVersion9 else RdpWindowsOnly)
                       (g_nCurLineNumber s) (g_strLine s) # es)
           \<and> (\<exists>b. g_strBogusLinesNotImported (finish_record env s) = b @ crlf @ g_strLine s)"
  proof
    assume n: "\<not> (9 \<le> g_nMajorVersion env \<and> platform_win32 env)"
    from protocol_gate(1)[OF rdp4, of env s4] n protocol_gate(2)[OF rdp4 n, of s4] f k
    have "finish_record env s =
            (reject_line ((if g_nMajorVersion env < 9 then RdpNeedsVersion9 else RdpWindowsOnly)
                            (g_nCurLineNumber s) (g_strLine s)) s4)\<lparr>bSaveSession := False\<rparr>"
      by (simp add: after_check_def)
    then show "(\<exists>es. g_strErrors (finish_record env s) =
                    (if g_nMajorVersion env < 9 then RdpNeedsVersion9 else RdpWindowsOnly)
                       (g_nCurLineNumber s) (g_strLine s) # es)
           \<and> (\<exists>b. g_strBogusLinesNotImported (finish_record env s) = b @ crlf @ g_strLine s)"
      using k by (simp add: reject_line_def)
  qed
qed

subsection \<open>The protocol, the emulation and the gate\<close>

text \<open>
  C3. The protocol field lowers and strips its token and then: a token of the table
  (ssh2, ssh1, telnet, rlogin) becomes the table's name; a token that holds
  \<^verbatim>\<open>rdp\<close> becomes RDP; \<^verbatim>\<open>serial\<close> and \<^verbatim>\<open>tapi\<close> are rejected as unsupported;
  any other token becomes the default protocol of the header when there is one and is
  rejected as invalid otherwise. The tokens ssh2, Ssh2 and SSH2 all become SSH2. A data
  line with a rejected token creates no session.
\<close>

theorem protocol_normalization:
  assumes "py_lower (py_strip fld) = ''protocol''"
  shows "process_field env s fld v = Inr (protocol_field s v)
   \<and> (\<forall>name. map_of protocol_table (py_strip (py_lower v)) = Some name \<longrightarrow>
         strProtocol (protocol_field s v) = name
         \<and> bSaveSession (protocol_field s v) = bSaveSession s
         \<and> g_strErrors (protocol_field s v) = g_strErrors s)
   \<and> (py_in ''rdp'' (py_strip (py_lower v)) \<longrightarrow>
         strProtocol (protocol_field s v) = ''RDP''
         \<and> bSaveSession (protocol_field s v) = bSaveSession s
         \<and> g_strErrors (protocol_field s v) = g_strErrors s)
   \<and> (py_strip (py_lower v) \<in> set unsupported_protocols \<longrightarrow>
         \<not> bSaveSession (protocol_field s v)
         \<and> g_strErrors (protocol_field s v)
             = UnsupportedProtocol (py_strip v) (g_nCurLineNumber s) (g_strLine s) # g_strErrors s)
   \<and> (map_of protocol_table (py_strip (py_lower v)) = None
        \<and> \<not> py_in ''rdp'' (py_strip (py_lower v))
        \<and> py_strip (py_lower v) \<notin> set unsupported_protocols \<and> g_strDefaultProtocol s \<noteq> [] \<longrightarrow>
         strProtocol (protocol_field s v) = g_strDefaultProtocol s
         \<and> bSaveSession (protocol_field s v) = bSaveSession s
         \<and> g_strErrors (protocol_field s v) = g_strErrors s)
   \<and> (map_of protocol_table (py_strip (py_lower v)) = None
        \<and> \<not> py_in ''rdp'' (py_strip (py_lower v))
        \<and> py_strip (py_lower v) \<notin> set unsupported_protocols \<and> g_strDefaultProtocol s = [] \<longrightarrow>
         \<not> bSaveSession (protocol_field s v)
         \<and> g_strErrors (protocol_field s v)
             = InvalidProtocol (py_strip (py_lower v)) (g_nCurLineNumber s) (g_strLine s)
               # g_strErrors s)
   \<and> (v \<in> set [''ssh2'', ''Ssh2'', ''SSH2''] \<longrightarrow> strProtocol (protocol_field s v) = ''SSH2'')
   \<and> ((py_strip (py_lower v) \<in> set unsupported_protocols
         \<or> (map_of protocol_table (py_strip (py_lower v)) = None
             \<and> \<not> py_in ''rdp'' (py_strip (py_lower v)) \<and> g_strDefaultProtocol t = []))
        \<and> process_data_line env t = Inr t'
        \<and> length (py_split (g_strLine t) (g_strDelimiter t)) = length (g_vFieldsArray t)
        \<and> (fld, v) \<in> set (zip (g_vFieldsArray t) (py_split (g_strLine t) (g_strDelimiter t)))
        \<longrightarrow> sessions t' = sessions t \<and> g_nSessionsCreated t' = g_nSessionsCreated t)"
proof -
  note pf = field_label_protocol[OF assms]
  have ssh2: "v \<in> set [''ssh2'', ''Ssh2'', ''SSH2''] \<longrightarrow> strProtocol (protocol_field s v) = ''SSH2''"
    using ssh2_tokens protocol_field_cases(1)[where s=s and v=v and name="''SSH2''"]
    by (auto simp: protocol_table_def)
  have line: "sessions t' = sessions t \<and> g_nSessionsCreated t' = g_nSessionsCreated t"
    if rej: "py_strip (py_lower v) \<in> set unsupported_protocols
         \<or> (map_of protocol_table (py_strip (py_lower v)) = None
             \<and> \<not> py_in ''rdp'' (py_strip (py_lower v)) \<and> g_strDefaultProtocol t = [])"
      and run: "process_data_line env t = Inr t'"
      and len: "length (py_split (g_strLine t) (g_strDelimiter t)) = length (g_vFieldsArray t)"
      and mem: "(fld, v) \<in> set (zip (g_vFieldsArray t) (py_split (g_strLine t) (g_strDelimiter t)))"
  proof -
    from data_line_field[OF run len mem] obtain s1 s2 where
      f: "process_field env s1 fld v = Inr s2"
      and d: "g_strDefaultProtocol s1 = g_strDefaultProtocol t"
      and n: "\<not> bSaveSession s2 \<longrightarrow>
                 sessions t' = sessions t \<and> g_nSessionsCreated t' = g_nSessionsCreated t
                 \<and> g_strSessionsCreated t' = g_strSessionsCreated t"
      by blast
    from f have s2: "s2 = protocol_field s1 v" by (simp add: field_label_protocol[OF assms])
    from rej d have "\<not> bSaveSession (protocol_field s1 v)"
      using protocol_field_cases(3)[where s=s1 and v=v] protocol_field_cases(5)[where s=s1 and v=v]
      by (auto simp: unsupported_protocols_def)
    with n s2 show ?thesis by blast
  qed
  show ?thesis
    using pf protocol_field_cases[where s=s and v=v] ssh2 line by blast
qed

theorem protocol_normalization_witness:
  "strProtocol (protocol_field (example_line [''hostname'', ''Protocol''] ''h,Ssh2'') ''Ssh2'') = ''SSH2''
   \<and> strProtocol (protocol_field (example_line [''hostname'', ''Protocol''] ''h,xRDP'') ''xRDP'') = ''RDP''
   \<and> \<not> bSaveSession (protocol_field (example_line [''hostname'', ''Protocol''] ''h,Serial'') ''Serial'')
   \<and> strProtocol (protocol_field
         ((example_line [''hostname'', ''Protocol''] ''h,foo'')\<lparr>g_strDefaultProtocol := ''TELNET''\<rparr>)
         ''foo'') = ''TELNET''
   \<and> \<not> bSaveSession (protocol_field (example_line [''hostname'', ''Protocol''] ''h,foo'') ''foo'')
   \<and> sessions (projr (process_data_line (windows_env [])
                          (example_line [''hostname'', ''Protocol''] ''h,Serial'')))
       = sessions (example_line [''hostname'', ''Protocol''] ''h,Serial'')"
proof -
  let ?e = "windows_env []"
  have lab: "py_lower (py_strip ''Protocol'') = ''protocol''" by code_simp
  have h1: "map_of protocol_table (py_strip (py_lower ''Ssh2'')) = Some ''SSH2''" by code_simp
  have h2: "py_in ''rdp'' (py_strip (py_lower ''xRDP''))" by code_simp
  have h3: "py_strip (py_lower ''Serial'') \<in> set unsupported_protocols" by code_simp
  have h4: "map_of protocol_table (py_strip (py_lower ''foo'')) = None
        \<and> \<not> py_in ''rdp'' (py_strip (py_lower ''foo''))
        \<and> py_strip (py_lower ''foo'') \<notin> set unsupported_protocols" by code_simp
  let ?s = "\<lambda>l. example_line [''hostname'', ''Protocol''] l"
  have d0: "g_strDefaultProtocol (?s l) = []" for l
    by (simp add: example_line_def initial_state_def)
  have d1: "g_strDefaultProtocol ((?s l)\<lparr>g_strDefaultProtocol := ''TELNET''\<rparr>) \<noteq> []" for l
    by simp
  let ?t = "?s ''h,Serial''"
  have "\<not> isl (process_data_line ?e ?t)" by code_simp
  then have run: "process_data_line ?e ?t = Inr (projr (process_data_line ?e ?t))" by simp
  have len: "length (py_split (g_strLine ?t) (g_strDelimiter ?t)) = length (g_vFieldsArray ?t)"
    by code_simp
  have mem: "(''Protocol'', ''Serial'') \<in> set (zip (g_vFieldsArray ?t) (py_split (g_strLine ?t) (g_strDelimiter ?t)))"
    by code_simp
  from protocol_normalization[OF lab, of ?e "?s ''h,Ssh2''" "''Ssh2''"] h1
  have c1: "strProtocol (protocol_field (?s ''h,Ssh2'') ''Ssh2'') = ''SSH2''" by blast
  from protocol_normalization[OF lab, of ?e "?s ''h,xRDP''" "''xRDP''"] h2
  have c2: "strProtocol (protocol_field (?s ''h,xRDP'') ''xRDP'') = ''RDP''" by blast
  from protocol_normalization[OF lab, of ?e "?s ''h,Serial''" "''Serial''"] h3
  have c3: "\<not> bSaveSession (protocol_field (?s ''h,Serial'') ''Serial'')" by blast
  from protocol_normalization[OF lab, of ?e "(?s ''h,foo'')\<lparr>g_strDefaultProtocol := ''TELNET''\<rparr>" "''foo''"]
    h4 d1[of "''h,foo''"]
  have c4: "strProtocol (protocol_field ((?s ''h,foo'')\<lparr>g_strDefaultProtocol := ''TELNET''\<rparr>) ''foo'')
             = ''TELNET''" by simp
  from protocol_normalization[OF lab, of ?e "?s ''h,foo''" "''foo''"] h4 d0[of "''h,foo''"]
  have c5: "\<not> bSaveSession (protocol_field (?s ''h,foo'') ''foo'')" by blast
  from protocol_normalization[OF lab, of ?e ?t "''Serial''" ?t "projr (process_data_line ?e ?t)"]
    h3 run len mem
  have c6: "sessions (projr (process_data_line ?e ?t)) = sessions ?t" by blast
  from c1 c2 c3 c4 c5 c6 show ?thesis by blast
qed

text \<open>
  C6. The emulation token \<^verbatim>\<open>vt320\<close>, in any case of its letters: with a major
  version of the application below 8 the field clears \<^verbatim>\<open>bSaveSession\<close> and records
  the message that VT320 is not available, and a data line that holds the token creates
  no session; with a major version of 8 or more the emulation becomes \<^verbatim>\<open>VT320\<close> and
  nothing else changes.
\<close>

theorem vt320_emulation:
  assumes "py_lower (py_strip fld) = ''emulation''" and "py_strip (py_lower v) = ''vt320''"
  shows "process_field env s fld v = Inr (emulation_field env s v)
   \<and> (g_nMajorVersion env < 8 \<longrightarrow>
         \<not> bSaveSession (emulation_field env s v)
         \<and> g_strErrors (emulation_field env s v)
             = Vt320Unavailable (g_nCurLineNumber s) (g_strLine s) # g_strErrors s)
   \<and> (8 \<le> g_nMajorVersion env \<longrightarrow>
         strEmulation (emulation_field env s v) = ''VT320''
         \<and> bSaveSession (emulation_field env s v) = bSaveSession s
         \<and> g_strErrors (emulation_field env s v) = g_strErrors s)
   \<and> (g_nMajorVersion env < 8 \<and> process_data_line env t = Inr t'
        \<and> length (py_split (g_strLine t) (g_strDelimiter t)) = length (g_vFieldsArray t)
        \<and> (fld, v) \<in> set (zip (g_vFieldsArray t) (py_split (g_strLine t) (g_strDelimiter t)))
        \<longrightarrow> sessions t' = sessions t \<and> g_nSessionsCreated t' = g_nSessionsCreated t
            \<and> Vt320Unavailable (g_nCurLineNumber t) (g_strLine t) \<in> set (g_strErrors t'))"
proof -
  note pf = field_label_emulation[OF assms(1)]
  have old: "g_nMajorVersion env < 8 \<Longrightarrow>
         \<not> bSaveSession (emulation_field env x v)
         \<and> g_strErrors (emulation_field env x v)
             = Vt320Unavailable (g_nCurLineNumber x) (g_strLine x) # g_strErrors x" for x
    using assms(2) by (simp add: emulation_field_def add_error_def)
  have new: "8 \<le> g_nMajorVersion env \<Longrightarrow>
         strEmulation (emulation_field env s v) = ''VT320''
         \<and> bSaveSession (emulation_field env s v) = bSaveSession s
         \<and> g_strErrors (emulation_field env s v) = g_strErrors s"
    using assms(2) by (simp add: emulation_field_def add_error_def)
  have line: "sessions t' = sessions t \<and> g_nSessionsCreated t' = g_nSessionsCreated t
            \<and> Vt320Unavailable (g_nCurLineNumber t) (g_strLine t) \<in> set (g_strErrors t')"
    if ver: "g_nMajorVersion env < 8" and run: "process_data_line env t = Inr t'"
      and len: "length (py_split (g_strLine t) (g_strDelimiter t)) = length (g_vFieldsArray t)"
      and mem: "(fld, v) \<in> set (zip (g_vFieldsArray t) (py_split (g_strLine t) (g_strDelimiter t)))"
  proof -
    from data_line_field[OF run len mem] obtain s1 s2 es where
      f: "process_field env s1 fld v = Inr s2"
      and k: "g_nCurLineNumber s1 = g_nCurLineNumber t" "g_strLine s1 = g_strLine t"
      and n: "\<not> bSaveSession s2 \<longrightarrow>
                 sessions t' = sessions t \<and> g_nSessionsCreated t' = g_nSessionsCreated t
                 \<and> g_strSessionsCreated t' = g_strSessionsCreated t"
      and e: "g_strErrors t' = es @ g_strErrors s2"
      by blast
    from f have s2: "s2 = emulation_field env s1 v"
      by (simp add: field_label_emulation[OF assms(1)])
    from old[OF ver, of s1] s2 k n e show ?thesis by auto
  qed
  from pf old[of s] new line show ?thesis by blast
qed

theorem vt320_emulation_witness:
  "\<not> bSaveSession (emulation_field (other_env []) (example_line [''hostname'', ''Emulation''] ''h,VT320'') ''VT320'')
   \<and> strEmulation (emulation_field (windows_env []) (example_line [''hostname'', ''Emulation''] ''h,VT320'') ''VT320'')
       = ''VT320''
   \<and> Vt320Unavailable 2 ''h,VT320''
       \<in> set (g_strErrors (projr (process_data_line (other_env [])
                  (example_line [''hostname'', ''Emulation''] ''h,VT320''))))"
proof -
  let ?t = "example_line [''hostname'', ''Emulation''] ''h,VT320''"
  have lab: "py_lower (py_strip ''Emulation'') = ''emulation''" by code_simp
  have tok: "py_strip (py_lower ''VT320'') = ''vt320''" by code_simp
  have v7: "g_nMajorVersion (other_env []) < 8" by (simp add: other_env_def)
  have v9: "8 \<le> g_nMajorVersion (windows_env [])" by (simp add: windows_env_def)
  have "\<not> isl (process_data_line (other_env []) ?t)" by code_simp
  then have run: "process_data_line (other_env []) ?t = Inr (projr (process_data_line (other_env []) ?t))"
    by simp
  have len: "length (py_split (g_strLine ?t) (g_strDelimiter ?t)) = length (g_vFieldsArray ?t)"
    by code_simp
  have mem: "(''Emulation'', ''VT320'')
              \<in> set (zip (g_vFieldsArray ?t) (py_split (g_strLine ?t) (g_strDelimiter ?t)))"
    by code_simp
  have ln: "g_nCurLineNumber ?t = 2" "g_strLine ?t = ''h,VT320''"
    by (simp_all add: example_line_def)
  from vt320_emulation[OF lab tok, of "other_env []" ?t] v7
  have c1: "\<not> bSaveSession (emulation_field (other_env []) ?t ''VT320'')" by blast
  from vt320_emulation[OF lab tok, of "windows_env []" ?t] v9
  have c2: "strEmulation (emulation_field (windows_env []) ?t ''VT320'') = ''VT320''" by blast
  from vt320_emulation[OF lab tok, of "other_env []" ?t ?t "projr (process_data_line (other_env []) ?t)"]
    v7 run len mem
  have "Vt320Unavailable (g_nCurLineNumber ?t) (g_strLine ?t)
          \<in> set (g_strErrors (projr (process_data_line (other_env []) ?t)))" by blast
  then have c3: "Vt320Unavailable 2 ''h,VT320''
          \<in> set (g_strErrors (projr (process_data_line (other_env []) ?t)))"
    by (simp only: ln)
  from c1 c2 c3 show ?thesis by blast
qed

text \<open>
  C7. A protocol that holds \<^verbatim>\<open>rdp\<close> (RDP is what the protocol field normalizes such
  a token to) passes the protocol gate exactly when the major version is at least 9 and
  the platform is win32. A data line whose record has such a protocol creates a session
  only then; in every other environment it creates none, the message of the gate is the
  first of the errors and the line ends the list of lines not imported, whatever the
  other fields hold.
\<close>

theorem rdp_gate:
  assumes "py_in ''rdp'' (py_lower p)"
  shows "fst (ValidateProtocolComponent env s p) = (9 \<le> g_nMajorVersion env \<and> platform_win32 env)
   \<and> (process_data_line env t = Inr t'
        \<and> length (py_split (g_strLine t) (g_strDelimiter t)) = length (g_vFieldsArray t)
        \<and> strProtocol t' = p \<longrightarrow>
         ((sessions t' \<noteq> sessions t \<or> g_nSessionsCreated t' \<noteq> g_nSessionsCreated t)
            \<longrightarrow> 9 \<le> g_nMajorVersion env \<and> platform_win32 env)
         \<and> (\<not> (9 \<le> g_nMajorVersion env \<and> platform_win32 env) \<longrightarrow>
              sessions t' = sessions t \<and> g_nSessionsCreated t' = g_nSessionsCreated t
              \<and> (\<exists>es. g_strErrors t' =
                    (if g_nMajorVersion env < 9 then RdpNeedsVersion9 else RdpWindowsOnly)
                       (g_nCurLineNumber t) (g_strLine t) # es)
              \<and> (\<exists>b. g_strBogusLinesNotImported t' = b @ crlf @ g_strLine t)))"
proof -
  have line: "((sessions t' \<noteq> sessions t \<or> g_nSessionsCreated t' \<noteq> g_nSessionsCreated t)
            \<longrightarrow> 9 \<le> g_nMajorVersion env \<and> platform_win32 env)
         \<and> (\<not> (9 \<le> g_nMajorVersion env \<and> platform_win32 env) \<longrightarrow>
              sessions t' = sessions t \<and> g_nSessionsCreated t' = g_nSessionsCreated t
              \<and> (\<exists>es. g_strErrors t' =
                    (if g_nMajorVersion env < 9 then RdpNeedsVersion9 else RdpWindowsOnly)
                       (g_nCurLineNumber t) (g_strLine t) # es)
              \<and> (\<exists>b. g_strBogusLinesNotImported t' = b @ crlf @ g_strLine t))"
    if run: "process_data_line env t = Inr t'"
      and len: "length (py_split (g_strLine t) (g_strDelimiter t)) = length (g_vFieldsArray t)"
      and pr: "strProtocol t' = p"
  proof -
    let ?t1 = "t\<lparr>vSessionInfo := py_split (g_strLine t) (g_strDelimiter t), bSaveSession := True\<rparr>"
    from data_line_equal_count[OF run len] obtain w where
      w: "process_fields env ?t1 (zip (g_vFieldsArray t) (py_split (g_strLine t) (g_strDelimiter t))) = Inr w"
      and fin: "if bSaveSession (finish_record env w)
                then create_session env (finish_record env w) = Inr t'
                else t' = finish_record env w"
      by blast
    have t1: "fields_frame ?t1
                = fields_frame (t\<lparr>vSessionInfo := py_split (g_strLine t) (g_strDelimiter t)\<rparr>)"
      by (simp add: fields_frame_def)
    note pw = fields_frame_proj[OF process_fields_frame[OF w, unfolded t1]]
    have kw: "sessions w = sessions t" "g_nSessionsCreated w = g_nSessionsCreated t"
      "g_nCurLineNumber w = g_nCurLineNumber t" "g_strLine w = g_strLine t"
      using pw(1,14,3,2) by simp_all
    have pu: "strProtocol t' = strProtocol w"
    proof (cases "bSaveSession (finish_record env w)")
      case True
      with fin have "create_session env (finish_record env w) = Inr t'" by simp
      from create_session_keeps(2)[OF this] show ?thesis
        by (simp add: finish_record_keeps(4))
    next
      case False
      with fin show ?thesis by (simp add: finish_record_keeps(4))
    qed
    with pr assms have rdp: "py_in ''rdp'' (py_lower (strProtocol w))" by simp
    note g = finish_record_gate[OF rdp, of env]
    show ?thesis
    proof (cases "9 \<le> g_nMajorVersion env \<and> platform_win32 env")
      case True
      then show ?thesis by simp
    next
      case False
      with g(1) have ns: "\<not> bSaveSession (finish_record env w)" by blast
      with fin have eq: "t' = finish_record env w" by simp
      from g(2) False eq kw finish_record_keeps(1,5)[of env w] show ?thesis by auto
    qed
  qed
  from protocol_gate(1)[OF assms, of env s] line show ?thesis by blast
qed

theorem rdp_gate_witness:
  "fst (ValidateProtocolComponent (windows_env []) (example_line [''hostname'', ''protocol''] ''h,rdp'') ''RDP'')
   \<and> \<not> fst (ValidateProtocolComponent (other_env []) (example_line [''hostname'', ''protocol''] ''h,rdp'') ''RDP'')
   \<and> sessions (projr (process_data_line (other_env []) (example_line [''hostname'', ''protocol''] ''h,rdp'')))
       = sessions (example_line [''hostname'', ''protocol''] ''h,rdp'')
   \<and> (\<exists>es. g_strErrors (projr (process_data_line (other_env [])
                 (example_line [''hostname'', ''protocol''] ''h,rdp'')))
              = RdpNeedsVersion9 2 ''h,rdp'' # es)
   \<and> 9 \<le> g_nMajorVersion (windows_env []) \<and> platform_win32 (windows_env [])"
proof -
  let ?t = "example_line [''hostname'', ''protocol''] ''h,rdp''"
  let ?o = "other_env []" and ?w = "windows_env []"
  have rdp: "py_in ''rdp'' (py_lower ''RDP'')" by code_simp
  have ok: "9 \<le> g_nMajorVersion ?w \<and> platform_win32 ?w" by (simp add: windows_env_def)
  have no: "\<not> (9 \<le> g_nMajorVersion ?o \<and> platform_win32 ?o)" by (simp add: other_env_def)
  have v7: "g_nMajorVersion ?o < 9" by (simp add: other_env_def)
  have ln: "g_nCurLineNumber ?t = 2" "g_strLine ?t = ''h,rdp''"
    by (simp_all add: example_line_def)
  have len: "length (py_split (g_strLine ?t) (g_strDelimiter ?t)) = length (g_vFieldsArray ?t)"
    by code_simp
  have "\<not> isl (process_data_line ?o ?t)" by code_simp
  then have run: "process_data_line ?o ?t = Inr (projr (process_data_line ?o ?t))" by simp
  have pr: "strProtocol (projr (process_data_line ?o ?t)) = ''RDP''" by code_simp
  have "\<not> isl (process_data_line ?w ?t)" by code_simp
  then have runw: "process_data_line ?w ?t = Inr (projr (process_data_line ?w ?t))" by simp
  have prw: "strProtocol (projr (process_data_line ?w ?t)) = ''RDP''" by code_simp
  have made: "g_nSessionsCreated (projr (process_data_line ?w ?t)) \<noteq> g_nSessionsCreated ?t"
    by code_simp
  from rdp_gate[OF rdp, of ?w ?t] ok
  have c1: "fst (ValidateProtocolComponent ?w ?t ''RDP'')" by blast
  from rdp_gate[OF rdp, of ?o ?t] no
  have c2: "\<not> fst (ValidateProtocolComponent ?o ?t ''RDP'')" by blast
  from rdp_gate[OF rdp, of ?o ?t ?t "projr (process_data_line ?o ?t)"] run len pr no
  have r: "sessions (projr (process_data_line ?o ?t)) = sessions ?t
           \<and> (\<exists>es. g_strErrors (projr (process_data_line ?o ?t)) =
                    (if g_nMajorVersion ?o < 9 then RdpNeedsVersion9 else RdpWindowsOnly)
                       (g_nCurLineNumber ?t) (g_strLine ?t) # es)"
    by blast
  then have c3: "sessions (projr (process_data_line ?o ?t)) = sessions ?t" by blast
  from r have c4: "\<exists>es. g_strErrors (projr (process_data_line ?o ?t)) = RdpNeedsVersion9 2 ''h,rdp'' # es"
    by (simp only: ln v7 if_True)
  from rdp_gate[OF rdp, of ?w ?t ?t "projr (process_data_line ?w ?t)"] runw len prw made
  have c5: "9 \<le> g_nMajorVersion ?w \<and> platform_win32 ?w" by blast
  from c1 c2 c3 c4 c5 show ?thesis by blast
qed

subsection \<open>The session store\<close>

lemma resolve_path_sessions: "sessions (resolve_path s) = sessions s"
  "g_bOverwriteExistingSessions (resolve_path s) = g_bOverwriteExistingSessions s"
  "g_nCurLineNumber (resolve_path s) = g_nCurLineNumber s"
  by (simp_all add: resolve_path_def Let_def)

lemma session_path_sessions: "sessions (session_path env s) = sessions s"
  by (simp add: session_path_def Let_def resolve_path_sessions)

lemma default_port_keeps: "sessions (default_port s) = sessions s"
  "strSessionPath (default_port s) = strSessionPath s"
  by (simp_all add: default_port_def split: option.splits)

lemma configure_session_store:
  "configure_session env s c = Inr s' \<Longrightarrow>
     strSessionPath s' = strSessionPath s
     \<and> (\<exists>c'. sessions s' = (sessions s)(strSessionPath s \<mapsto> c'))"
  "configure_session env s c = Inl (a, s') \<Longrightarrow> sessions s' = sessions s"
  by (auto simp: configure_session_def Let_def default_port_keeps register_session_def
           split: if_splits)

lemma create_session_store:
  "create_session env s = Inr s' \<Longrightarrow>
     strSessionPath s' = strSessionPath (session_path env s)
     \<and> (\<exists>c'. sessions s' = (sessions s)(strSessionPath (session_path env s) \<mapsto> c'))"
  "create_session env s = Inl (a, s') \<Longrightarrow>
     sessions s' = sessions s
     \<or> (\<exists>c'. sessions s' = (sessions s)(strSessionPath (session_path env s) \<mapsto> c'))"
proof -
  let ?s1 = "session_path env s"
  show "create_session env s = Inr s' \<Longrightarrow>
     strSessionPath s' = strSessionPath ?s1
     \<and> (\<exists>c'. sessions s' = (sessions s)(strSessionPath ?s1 \<mapsto> c'))"
    by (auto simp: create_session_def Let_def session_path_sessions
             split: option.splits if_splits dest!: configure_session_store(1))
  show "create_session env s = Inl (a, s') \<Longrightarrow>
     sessions s' = sessions s
     \<or> (\<exists>c'. sessions s' = (sessions s)(strSessionPath ?s1 \<mapsto> c'))"
    by (auto simp: create_session_def Let_def session_path_sessions
             split: option.splits if_splits dest!: configure_session_store(2))
qed

text \<open>
  C10. With overwriting of existing sessions switched off (the value the script gives
  \<^verbatim>\<open>g_bOverwriteExistingSessions\<close>), a record whose resolved path already names a
  session of the store is saved under the resolved path followed by \<^verbatim>\<open>(import_(\<close>,
  the time stamp and \<^verbatim>\<open>)\<close>. That path differs from the resolved one, the session at
  the resolved path stays as it was, and so does every session at a path other than the
  one the record is saved under.
\<close>

theorem no_overwrite:
  assumes "\<not> g_bOverwriteExistingSessions s"
    and "SessionExists (sessions s) (strSessionPath (resolve_path s))"
  shows "\<not> g_bOverwriteExistingSessions (initial_state store)
   \<and> strSessionPath (session_path env s)
       = strSessionPath (resolve_path s) @ ''(import_('' @ timestamp_at env (g_nCurLineNumber s) @ '')''
   \<and> strSessionPath (session_path env s) \<noteq> strSessionPath (resolve_path s)
   \<and> (\<forall>a s'. create_session env s = Inr s' \<or> create_session env s = Inl (a, s') \<longrightarrow>
         sessions s' (strSessionPath (resolve_path s)) = sessions s (strSessionPath (resolve_path s))
         \<and> (\<forall>q. q \<noteq> strSessionPath (session_path env s) \<longrightarrow> sessions s' q = sessions s q))
   \<and> (\<forall>s'. create_session env s = Inr s' \<longrightarrow>
         strSessionPath s' = strSessionPath (session_path env s)
         \<and> SessionExists (sessions s') (strSessionPath s'))"
proof -
  let ?p = "strSessionPath (resolve_path s)" and ?q = "strSessionPath (session_path env s)"
  have tag: "?q = ?p @ ''(import_('' @ timestamp_at env (g_nCurLineNumber s) @ '')''"
    using assms by (simp add: session_path_def Let_def resolve_path_sessions)
  then have ne: "?q \<noteq> ?p" by simp
  have frame: "sessions s' ?p = sessions s ?p \<and> (\<forall>q. q \<noteq> ?q \<longrightarrow> sessions s' q = sessions s q)"
    if "create_session env s = Inr s' \<or> create_session env s = Inl (a, s')" for a s'
    using that create_session_store(1)[of env s s'] create_session_store(2)[of env s a s'] ne
    by auto
  have made: "strSessionPath s' = ?q \<and> SessionExists (sessions s') (strSessionPath s')"
    if "create_session env s = Inr s'" for s'
    using create_session_store(1)[OF that] by (auto simp: SessionExists_def)
  have init: "\<not> g_bOverwriteExistingSessions (initial_state store)"
    by (simp add: initial_state_def)
  from init tag ne frame made show ?thesis by blast
qed

lemma normalize_line_sessions:
  assumes "normalize_line env t = Inr u"
  shows "sessions u = sessions t"
proof -
  from assms obtain w where
    w: "process_fields env (t\<lparr>bSaveSession := True\<rparr>) (zip (g_vFieldsArray t) (vSessionInfo t)) = Inr w"
    and u: "u = finish_record env w"
    by (auto simp: normalize_line_def split: sum.splits)
  have "fields_frame (t\<lparr>bSaveSession := True\<rparr>) = fields_frame t"
    by (simp add: fields_frame_def)
  with process_fields_frame[OF w] have "fields_frame w = fields_frame t" by simp
  from fields_frame_proj(1)[OF this] u show ?thesis
    by (simp add: finish_record_keeps(1))
qed

theorem no_overwrite_witness:
  "strSessionPath (session_path (windows_env [])
      (projr (normalize_line (windows_env []) duplicate_line)))
     = ''h(import_(20210625_120000.000)''
   \<and> sessions (projr (create_session (windows_env [])
                   (projr (normalize_line (windows_env []) duplicate_line)))) ''h''
       = duplicate_store ''h''
   \<and> SessionExists
        (sessions (projr (create_session (windows_env [])
                    (projr (normalize_line (windows_env []) duplicate_line)))))
        ''h(import_(20210625_120000.000)''"
proof -
  let ?e = "windows_env []"
  let ?s = "projr (normalize_line ?e duplicate_line)"
  let ?r = "projr (create_session ?e ?s)"
  have h1: "\<not> g_bOverwriteExistingSessions ?s" by code_simp
  have h2: "SessionExists (sessions ?s) (strSessionPath (resolve_path ?s))" by code_simp
  have p: "strSessionPath (resolve_path ?s) = ''h''" by code_simp
  have ts: "timestamp_at ?e n = ''20210625_120000.000''" for n
    by (simp add: windows_env_def)
  have "\<not> isl (normalize_line ?e duplicate_line)" by code_simp
  then have "normalize_line ?e duplicate_line = Inr ?s" by simp
  from normalize_line_sessions[OF this] have st: "sessions ?s = duplicate_store"
    by (simp add: duplicate_line_def)
  have "\<not> isl (create_session ?e ?s)" by code_simp
  then have run: "create_session ?e ?s = Inr ?r" by simp
  from no_overwrite[OF h1 h2, of example_store ?e]
  have a: "strSessionPath (session_path ?e ?s)
             = strSessionPath (resolve_path ?s) @ ''(import_('' @ timestamp_at ?e (g_nCurLineNumber ?s) @ '')''"
    and b: "\<forall>a s'. create_session ?e ?s = Inr s' \<or> create_session ?e ?s = Inl (a, s') \<longrightarrow>
         sessions s' (strSessionPath (resolve_path ?s)) = sessions ?s (strSessionPath (resolve_path ?s))"
    and c: "\<forall>s'. create_session ?e ?s = Inr s' \<longrightarrow>
         strSessionPath s' = strSessionPath (session_path ?e ?s)
         \<and> SessionExists (sessions s') (strSessionPath s')"
    by blast+
  from a have c1: "strSessionPath (session_path ?e ?s) = ''h(import_(20210625_120000.000)''"
    by (simp only: p ts append.simps)
  from b run have "sessions ?r (strSessionPath (resolve_path ?s))
                     = sessions ?s (strSessionPath (resolve_path ?s))" by blast
  then have c2: "sessions ?r ''h'' = duplicate_store ''h''" by (simp only: p st)
  from c run have x: "strSessionPath ?r = strSessionPath (session_path ?e ?s)"
    and y: "SessionExists (sessions ?r) (strSessionPath ?r)" by blast+
  from y have c3: "SessionExists (sessions ?r) ''h(import_(20210625_120000.000)''"
    unfolding x c1 .
  from c1 c2 c3 show ?thesis by blast
qed

subsection \<open>The normalized record\<close>

lemma step_hostname:
  "strHostName (port_field s v) = strHostName s"
  "strHostName (protocol_field s v) = strHostName s"
  "strHostName (emulation_field env s v) = strHostName s"
  "strHostName (folder_field s v) = strHostName s"
  "strHostName (description_field s v) = strHostName s"
  "bSaveSession (hostname_field s v) \<Longrightarrow> strHostName (hostname_field s v) \<noteq> []"
  by (simp_all add: port_field_def protocol_field_def hostname_field_def emulation_field_def
        folder_field_def description_field_def add_error_def Let_def split: if_splits)

lemma step_port:
  "strPort (hostname_field s v) = strPort s"
  "strPort (protocol_field s v) = strPort s"
  "strPort (emulation_field env s v) = strPort s"
  "strPort (folder_field s v) = strPort s"
  "strPort (description_field s v) = strPort s"
  "bSaveSession (port_field s v) \<Longrightarrow>
     strPort (port_field s v) = [] \<or> py_isdigit (strPort (port_field s v))"
  by (simp_all add: port_field_def protocol_field_def hostname_field_def emulation_field_def
        folder_field_def description_field_def add_error_def Let_def split: if_splits)

lemma step_session_name:
  "strSessionName (port_field s v) = strSessionName s"
  "strSessionName (protocol_field s v) = strSessionName s"
  "strSessionName (hostname_field s v) = strSessionName s"
  "strSessionName (emulation_field env s v) = strSessionName s"
  "strSessionName (folder_field s v) = strSessionName s"
  "strSessionName (description_field s v) = strSessionName s"
  by (simp_all add: port_field_def protocol_field_def hostname_field_def emulation_field_def
        folder_field_def description_field_def add_error_def Let_def)

lemma process_field_host:
  assumes run: "process_field env s fld v = Inr s'" and sv: "bSaveSession s'"
    and h: "strHostName s \<noteq> [] \<or> py_lower (py_strip fld) = ''hostname''"
  shows "strHostName s' \<noteq> []"
proof (cases "py_lower (py_strip fld) = ''hostname''")
  case True
  from run field_label_hostname[OF True, of env s v] have "s' = hostname_field s v" by simp
  with sv step_hostname(6) show ?thesis by blast
next
  case False
  with h have ne: "strHostName s \<noteq> []" by blast
  from process_field_cases[OF run]
  consider "s' = s\<lparr>strSessionName := py_strip v\<rparr>" | "s' = s\<lparr>strLogonScript := py_strip v\<rparr>"
    | "s' = port_field s v" | "s' = protocol_field s v" | "s' = hostname_field s v"
    | "s' = s\<lparr>strUserName := py_strip v\<rparr>" | "s' = emulation_field env s v"
    | "s' = folder_field s v" | "s' = description_field s v" | "s' = s\<lparr>strDomain := py_strip v\<rparr>"
    by blast
  then show ?thesis
  proof cases
    case 3 with ne show ?thesis by (simp add: step_hostname(1))
  next
    case 4 with ne show ?thesis by (simp add: step_hostname(2))
  next
    case 5 with sv step_hostname(6) show ?thesis by blast
  next
    case 7 with ne show ?thesis by (simp add: step_hostname(3))
  next
    case 8 with ne show ?thesis by (simp add: step_hostname(4))
  next
    case 9 with ne show ?thesis by (simp add: step_hostname(5))
  qed (use ne in simp_all)
qed

lemma process_field_port:
  assumes run: "process_field env s fld v = Inr s'" and sv: "bSaveSession s'"
    and h: "strPort s = [] \<or> py_isdigit (strPort s)"
  shows "strPort s' = [] \<or> py_isdigit (strPort s')"
proof -
  from process_field_cases[OF run]
  consider "s' = s\<lparr>strSessionName := py_strip v\<rparr>" | "s' = s\<lparr>strLogonScript := py_strip v\<rparr>"
    | "s' = port_field s v" | "s' = protocol_field s v" | "s' = hostname_field s v"
    | "s' = s\<lparr>strUserName := py_strip v\<rparr>" | "s' = emulation_field env s v"
    | "s' = folder_field s v" | "s' = description_field s v" | "s' = s\<lparr>strDomain := py_strip v\<rparr>"
    by blast
  then show ?thesis
  proof cases
    case 3 with sv step_port(6) show ?thesis by blast
  next
    case 4 with h show ?thesis by (simp add: step_port(2))
  next
    case 5 with h show ?thesis by (simp add: step_port(1))
  next
    case 7 with h show ?thesis by (simp add: step_port(3))
  next
    case 8 with h show ?thesis by (simp add: step_port(4))
  next
    case 9 with h show ?thesis by (simp add: step_port(5))
  qed (use h in simp_all)
qed

lemma process_field_session_name:
  assumes run: "process_field env s fld v = Inr s'" and e: "strSessionName s = []"
    and h: "py_in ''session_name'' (py_lower (py_strip fld)) \<longrightarrow> py_strip v = []"
  shows "strSessionName s' = []"
proof (cases "py_in ''session_name'' (py_lower (py_strip fld))")
  case True
  with run h show ?thesis by (auto simp: process_field_def)
next
  case False
  with run e show ?thesis
    by (auto simp: process_field_def Let_def step_session_name split: if_splits)
qed

lemma process_fields_invariants:
  assumes "process_fields env s fvs = Inr s'" and "bSaveSession s'"
  shows "strHostName s \<noteq> [] \<or> (\<exists>(f, v) \<in> set fvs. py_lower (py_strip f) = ''hostname'')
           \<Longrightarrow> strHostName s' \<noteq> []"
    and "strPort s = [] \<or> py_isdigit (strPort s) \<Longrightarrow> strPort s' = [] \<or> py_isdigit (strPort s')"
  using assms
proof (induction fvs arbitrary: s)
  case Nil
  { case 1 then show ?case by simp }
  { case 2 then show ?case by simp }
next
  case (Cons fv fvs)
  { case 1
    from 1(2) obtain s1 where a: "process_field env s (fst fv) (snd fv) = Inr s1"
      and b: "process_fields env s1 fvs = Inr s'" by (auto split: sum.splits)
    from process_fields_mono(1)[OF b] 1(3) have sv: "bSaveSession s1" by blast
    show ?case
    proof (cases "\<exists>(f, v) \<in> set fvs. py_lower (py_strip f) = ''hostname''")
      case True
      with Cons.IH(1)[OF _ b 1(3)] show ?thesis by blast
    next
      case False
      with 1(1) have "strHostName s \<noteq> [] \<or> py_lower (py_strip (fst fv)) = ''hostname''"
        by auto
      from process_field_host[OF a sv this] Cons.IH(1)[OF _ b 1(3)] show ?thesis by blast
    qed }
  { case 2
    from 2(2) obtain s1 where a: "process_field env s (fst fv) (snd fv) = Inr s1"
      and b: "process_fields env s1 fvs = Inr s'" by (auto split: sum.splits)
    from process_fields_mono(1)[OF b] 2(3) have sv: "bSaveSession s1" by blast
    from process_field_port[OF a sv 2(1)] Cons.IH(2)[OF _ b 2(3)] show ?case by blast }
qed

lemma process_fields_session_name:
  assumes "process_fields env s fvs = Inr s'" and "strSessionName s = []"
    and "\<forall>(f, v) \<in> set fvs. py_in ''session_name'' (py_lower (py_strip f)) \<longrightarrow> py_strip v = []"
  shows "strSessionName s' = []"
  using assms
proof (induction fvs arbitrary: s)
  case Nil
  then show ?case by simp
next
  case (Cons fv fvs)
  from Cons.prems(1) obtain s1 where a: "process_field env s (fst fv) (snd fv) = Inr s1"
    and b: "process_fields env s1 fvs = Inr s'" by (auto split: sum.splits)
  from Cons.prems(3) have h: "py_in ''session_name'' (py_lower (py_strip (fst fv))) \<longrightarrow> py_strip (snd fv) = []"
    and r: "\<forall>(f, v) \<in> set fvs. py_in ''session_name'' (py_lower (py_strip f)) \<longrightarrow> py_strip v = []"
    by auto
  from process_field_session_name[OF a Cons.prems(2) h] have "strSessionName s1 = []" .
  from Cons.IH[OF b this r] show ?case .
qed

lemma py_int_nonneg:
  assumes "py_int p = Some n"
  shows "0 \<le> n"
proof -
  have f: "0 \<le> a \<Longrightarrow> 0 \<le> foldl (\<lambda>a c. 10 * a + (int (of_char c) - 48)) a cs"
    if "list_all (\<lambda>c. 48 \<le> (of_char c :: nat) \<and> (of_char c :: nat) \<le> 57) cs" for a cs
    using that by (induction cs arbitrary: a) auto
  from assms show ?thesis
    using f[of p 0] by (auto simp: py_int_def split: if_splits)
qed

lemma ascii_digit_char:
  assumes "py_isdigit_char c" and "(of_char c :: nat) < 128"
  shows "c \<in> set ''0123456789''"
    and "48 \<le> (of_char c :: nat) \<and> (of_char c :: nat) \<le> 57"
proof -
  let ?n = "of_char c :: nat"
  from assms show r: "48 \<le> ?n \<and> ?n \<le> 57"
    by (auto simp: py_isdigit_char_def Let_def)
  then have "?n \<in> {48, 49, 50, 51, 52, 53, 54, 55, 56, 57}" by simp arith
  then have "char_of ?n \<in> char_of ` {48 :: nat, 49, 50, 51, 52, 53, 54, 55, 56, 57}"
    by (rule imageI)
  also have "char_of ` {48 :: nat, 49, 50, 51, 52, 53, 54, 55, 56, 57} = set ''0123456789''"
    by code_simp
  finally show "c \<in> set ''0123456789''" by (simp only: char_of_char)
qed

lemma ascii_port_number:
  assumes "py_isdigit p" and "\<forall>c \<in> set p. (of_char c :: nat) < 128"
  shows "set p \<subseteq> set ''0123456789'' \<and> (\<exists>n. py_int p = Some n \<and> 0 \<le> n)"
proof -
  from assms have d: "\<forall>c \<in> set p. py_isdigit_char c" and ne: "p \<noteq> []"
    by (simp_all add: py_isdigit_def list_all_iff)
  from d assms(2) ascii_digit_char(1) have a: "set p \<subseteq> set ''0123456789''" by blast
  from d assms(2) ascii_digit_char(2)
  have "list_all (\<lambda>c. 48 \<le> (of_char c :: nat) \<and> (of_char c :: nat) \<le> 57) p"
    unfolding list_all_iff by blast
  with ne obtain n where n: "py_int p = Some n" by (simp add: py_int_def)
  from py_int_nonneg[OF n] n a show ?thesis by blast
qed

text \<open>
  C2, as the code has it. A record that normalization accepts, for a schema with a
  \<^verbatim>\<open>hostname\<close> field and from the state in which a round of the loop starts (session
  name and port empty), has a session name and a host name that are not empty; its
  session name is its host name when every \<^verbatim>\<open>session_name\<close> field of the line is empty
  or the schema has none; and its port, when it has one and the port is written in ASCII
  characters, is a numeral of the digits 0 to 9 and so a non-negative integer. The port is
  not required to be positive: the port 0 is accepted.
\<close>

theorem normalized_record_invariant:
  assumes "normalize_line env s = Inr s'" and "bSaveSession s'"
    and "length (vSessionInfo s) = length (g_vFieldsArray s)"
    and "\<exists>f \<in> set (g_vFieldsArray s). py_lower (py_strip f) = ''hostname''"
    and "strSessionName s = []" and "strPort s = []"
  shows "strSessionName s' \<noteq> [] \<and> strHostName s' \<noteq> []
   \<and> (strPort s' \<noteq> [] \<and> (\<forall>c \<in> set (strPort s'). (of_char c :: nat) < 128) \<longrightarrow>
         set (strPort s') \<subseteq> set ''0123456789''
         \<and> (\<exists>n. py_int (strPort s') = Some n \<and> 0 \<le> n))
   \<and> ((\<forall>(f, v) \<in> set (zip (g_vFieldsArray s) (vSessionInfo s)).
           py_in ''session_name'' (py_lower (py_strip f)) \<longrightarrow> py_strip v = [])
        \<longrightarrow> strSessionName s' = strHostName s')"
proof -
  let ?fvs = "zip (g_vFieldsArray s) (vSessionInfo s)"
  from assms(1) obtain w where
    w: "process_fields env (s\<lparr>bSaveSession := True\<rparr>) ?fvs = Inr w"
    and s': "s' = finish_record env w"
    by (auto simp: normalize_line_def split: sum.splits)
  from assms(2) s' have sw: "bSaveSession w" using finish_record_save by blast
  from assms(4) obtain f where f: "f \<in> set (g_vFieldsArray s)" "py_lower (py_strip f) = ''hostname''"
    by blast
  from in_set_impl_in_set_zip1[OF assms(3)[symmetric] f(1)] obtain v where "(f, v) \<in> set ?fvs"
    by blast
  with f(2) have "\<exists>(f, v) \<in> set ?fvs. py_lower (py_strip f) = ''hostname''" by blast
  with process_fields_invariants(1)[OF w sw] have hw: "strHostName w \<noteq> []" by blast
  have "strPort (s\<lparr>bSaveSession := True\<rparr>) = [] \<or> py_isdigit (strPort (s\<lparr>bSaveSession := True\<rparr>))"
    using assms(6) by simp
  from process_fields_invariants(2)[OF w sw this]
  have pw: "strPort w = [] \<or> py_isdigit (strPort w)" .
  have host: "strHostName s' = strHostName w" and port: "strPort s' = strPort w"
    using s' by (simp_all add: finish_record_keeps)
  have name: "strSessionName s' = (if strSessionName w = [] then strHostName w else strSessionName w)"
    using s' by (simp add: finish_record_session_name)
  have fb: "strSessionName s' = strHostName s'"
    if "\<forall>(f, v) \<in> set ?fvs. py_in ''session_name'' (py_lower (py_strip f)) \<longrightarrow> py_strip v = []"
  proof -
    have "strSessionName (s\<lparr>bSaveSession := True\<rparr>) = []" using assms(5) by simp
    from process_fields_session_name[OF w this that] name host show ?thesis by simp
  qed
  have pn: "set (strPort s') \<subseteq> set ''0123456789'' \<and> (\<exists>n. py_int (strPort s') = Some n \<and> 0 \<le> n)"
    if "strPort s' \<noteq> []" and "\<forall>c \<in> set (strPort s'). (of_char c :: nat) < 128"
  proof -
    from that(1) pw port have "py_isdigit (strPort s')" by simp
    from ascii_port_number[OF this that(2)] show ?thesis .
  qed
  from hw host name have c1: "strSessionName s' \<noteq> []" and c2: "strHostName s' \<noteq> []" by auto
  from c1 c2 pn fb show ?thesis by blast
qed

theorem normalized_record_invariant_witness:
  "strSessionName (projr (normalize_line (windows_env []) port_zero_line)) = ''h''
   \<and> strHostName (projr (normalize_line (windows_env []) port_zero_line)) = ''h''
   \<and> set (strPort (projr (normalize_line (windows_env []) port_zero_line))) \<subseteq> set ''0123456789''
   \<and> (\<exists>n. py_int (strPort (projr (normalize_line (windows_env []) port_zero_line))) = Some n
            \<and> 0 \<le> n)
   \<and> strSessionName (projr (normalize_line (windows_env []) port_zero_line)) \<noteq> []"
proof -
  let ?e = "windows_env []"
  let ?r = "projr (normalize_line ?e port_zero_line)"
  have "\<not> isl (normalize_line ?e port_zero_line)" by code_simp
  then have run: "normalize_line ?e port_zero_line = Inr ?r" by simp
  have sv: "bSaveSession ?r" by code_simp
  have len: "length (vSessionInfo port_zero_line) = length (g_vFieldsArray port_zero_line)"
    by code_simp
  have hn: "\<exists>f \<in> set (g_vFieldsArray port_zero_line). py_lower (py_strip f) = ''hostname''"
    by code_simp
  have e: "strSessionName port_zero_line = []" "strPort port_zero_line = []"
    by code_simp+
  have nosn: "\<forall>(f, v) \<in> set (zip (g_vFieldsArray port_zero_line) (vSessionInfo port_zero_line)).
           py_in ''session_name'' (py_lower (py_strip f)) \<longrightarrow> py_strip v = []"
    by code_simp
  have pne: "strPort ?r \<noteq> [] \<and> (\<forall>c \<in> set (strPort ?r). (of_char c :: nat) < 128)" by code_simp
  have host: "strHostName ?r = ''h''" by code_simp
  note t = normalized_record_invariant[OF run sv len hn e]
  from t nosn have "strSessionName ?r = strHostName ?r" by blast
  with host have c1: "strSessionName ?r = ''h''" by simp
  from t pne have c3: "set (strPort ?r) \<subseteq> set ''0123456789''
      \<and> (\<exists>n. py_int (strPort ?r) = Some n \<and> 0 \<le> n)" by blast
  from t have c4: "strSessionName ?r \<noteq> []" by blast
  from c1 host c3 c4 show ?thesis by blast
qed

text \<open>
  What the claim as first stated misses. The port 0 passes the test of the port field:
  the line \<^verbatim>\<open>h,0,ssh2\<close> under the header \<^verbatim>\<open>hostname,port,protocol\<close> is accepted
  with the port 0, and the import of that file creates the session h with the SSH2 port
  0. A port written with the superscript two passes \<^verbatim>\<open>isdigit\<close> as well (source line
  693), is no integer, and the import of its file ends in the ValueError of
  \<^verbatim>\<open>int(strPort)\<close> (line 912). And a schema can lose its \<^verbatim>\<open>hostname\<close> field after
  the header was validated: with the delimiter \<^verbatim>\<open>;folder=x\<close> the header
  \<^verbatim>\<open>folder=xh;folder=xhostname\<close> has the fields \<^verbatim>\<open>folder=xh\<close> and
  \<^verbatim>\<open>hostname\<close>, the replacement of \<^verbatim>\<open>folder=xh\<close> by \<^verbatim>\<open>folder\<close> (line 425)
  rewrites the header to the single field \<^verbatim>\<open>folder;folderostname\<close>, and the line
  \<^verbatim>\<open>abc\<close> becomes a session without a host name and with the empty session name.
\<close>

theorem record_invariant_counterexample:
  "(\<not> isl (normalize_line (windows_env []) port_zero_line)
    \<and> bSaveSession (projr (normalize_line (windows_env []) port_zero_line))
    \<and> strPort (projr (normalize_line (windows_env []) port_zero_line)) = ''0''
    \<and> py_int (strPort (projr (normalize_line (windows_env []) port_zero_line))) = Some 0
    \<and> (case Import (windows_env port_zero_file) (initial_state example_store) of
         Inr s' \<Rightarrow> (case sessions s' ''h'' of
                      Some c \<Rightarrow> (case c ''[SSH2] Port'' of Some (IntOpt n) \<Rightarrow> n = 0 | _ \<Rightarrow> False)
                    | None \<Rightarrow> False)
       | Inl a \<Rightarrow> False))
   \<and> (\<not> isl (normalize_line (windows_env []) superscript_port_line)
    \<and> bSaveSession (projr (normalize_line (windows_env []) superscript_port_line))
    \<and> strPort (projr (normalize_line (windows_env []) superscript_port_line)) = [CHR 0xB2]
    \<and> py_int (strPort (projr (normalize_line (windows_env []) superscript_port_line))) = None
    \<and> (case Import (windows_env superscript_port_file) (initial_state example_store) of
         Inr s' \<Rightarrow> False
       | Inl a \<Rightarrow> fst a = PyValueError))
   \<and> (case Import swallowed_hostname_env (initial_state example_store) of
         Inr s' \<Rightarrow> g_vFieldsArray s' = [''folder;folderostname'']
                   \<and> g_strErrors s' = [] \<and> g_nSessionsCreated s' = 1
                   \<and> (case sessions s' ''abc/'' of
                        Some c \<Rightarrow> c ''Hostname'' = None
                      | None \<Rightarrow> False)
       | Inl a \<Rightarrow> False)"
  by code_simp

subsection \<open>Normalization reads the line, the header and the defaults\<close>

lemma core_steps:
  "record_core (port_field s v) = record_core (port_field (record_core s) v)"
  "record_core (protocol_field s v) = record_core (protocol_field (record_core s) v)"
  "record_core (hostname_field s v) = record_core (hostname_field (record_core s) v)"
  "record_core (emulation_field env s v) = record_core (emulation_field env (record_core s) v)"
  "record_core (folder_field s v) = record_core (folder_field (record_core s) v)"
  "record_core (description_field s v) = record_core (description_field (record_core s) v)"
  by (simp_all add: port_field_def protocol_field_def hostname_field_def emulation_field_def
        folder_field_def description_field_def add_error_def Let_def record_core_def)

lemma core_updates:
  "record_core (s\<lparr>strSessionName := x\<rparr>) = (record_core s)\<lparr>strSessionName := x\<rparr>"
  "record_core (s\<lparr>strLogonScript := x\<rparr>) = (record_core s)\<lparr>strLogonScript := x\<rparr>"
  "record_core (s\<lparr>strUserName := x\<rparr>) = (record_core s)\<lparr>strUserName := x\<rparr>"
  "record_core (s\<lparr>strDomain := x\<rparr>) = (record_core s)\<lparr>strDomain := x\<rparr>"
  "record_core (s\<lparr>strFolderOrig := x\<rparr>) = (record_core s)\<lparr>strFolderOrig := x\<rparr>"
  "record_core (s\<lparr>bSaveSession := b\<rparr>) = (record_core s)\<lparr>bSaveSession := b\<rparr>"
  by (simp_all add: record_core_def)

lemma core_reads:
  "strSessionName (record_core s) = strSessionName s" "strHostName (record_core s) = strHostName s"
  "strProtocol (record_core s) = strProtocol s" "strPort (record_core s) = strPort s"
  "strUserName (record_core s) = strUserName s" "strEmulation (record_core s) = strEmulation s"
  "strFolderOrig (record_core s) = strFolderOrig s" "strDescription (record_core s) = strDescription s"
  "strLogonScript (record_core s) = strLogonScript s" "strDomain (record_core s) = strDomain s"
  "bSaveSession (record_core s) = bSaveSession s"
  "g_strDefaultFolder (record_core s) = g_strDefaultFolder s"
  "g_strDefaultUsername (record_core s) = g_strDefaultUsername s"
  "g_vFieldsArray (record_core s) = g_vFieldsArray s" "vSessionInfo (record_core s) = vSessionInfo s"
  by (simp_all add: record_core_def)

lemma process_field_core:
  assumes "record_core s1 = record_core s2"
  shows "same_outcome (process_field env s1 fld v) (process_field env s2 fld v)"
proof -
  have a: "record_core (port_field s1 v) = record_core (port_field s2 v)"
    "record_core (protocol_field s1 v) = record_core (protocol_field s2 v)"
    "record_core (hostname_field s1 v) = record_core (hostname_field s2 v)"
    "record_core (emulation_field env s1 v) = record_core (emulation_field env s2 v)"
    "record_core (folder_field s1 v) = record_core (folder_field s2 v)"
    "record_core (description_field s1 v) = record_core (description_field s2 v)"
    by (metis assms core_steps(1), metis assms core_steps(2), metis assms core_steps(3),
        metis assms core_steps(4), metis assms core_steps(5), metis assms core_steps(6))
  show ?thesis
    by (simp add: process_field_def Let_def same_outcome_def a core_updates assms)
qed

lemma process_fields_core:
  assumes "record_core s1 = record_core s2"
  shows "same_outcome (process_fields env s1 fvs) (process_fields env s2 fvs)"
  using assms
proof (induction fvs arbitrary: s1 s2)
  case Nil
  then show ?case by (simp add: same_outcome_def)
next
  case (Cons fv fvs)
  note f = process_field_core[OF Cons.prems, of env "fst fv" "snd fv"]
  show ?case
  proof (cases "process_field env s1 (fst fv) (snd fv)")
    case (Inl x)
    with f obtain y where "process_field env s2 (fst fv) (snd fv) = Inl y"
      "fst x = fst y" "record_core (snd x) = record_core (snd y)"
      by (auto simp: same_outcome_def split: sum.splits)
    with Inl show ?thesis by (simp add: same_outcome_def)
  next
    case (Inr a)
    with f obtain b where b: "process_field env s2 (fst fv) (snd fv) = Inr b"
      "record_core a = record_core b"
      by (auto simp: same_outcome_def split: sum.splits)
    from Cons.IH[OF b(2)] Inr b(1) show ?thesis by simp
  qed
qed

lemma core_eq_reads:
  assumes "record_core s1 = record_core s2"
  shows "strSessionName s1 = strSessionName s2" "strHostName s1 = strHostName s2"
    "strProtocol s1 = strProtocol s2" "strPort s1 = strPort s2" "strUserName s1 = strUserName s2"
    "strEmulation s1 = strEmulation s2" "strFolderOrig s1 = strFolderOrig s2"
    "strDescription s1 = strDescription s2" "strLogonScript s1 = strLogonScript s2"
    "strDomain s1 = strDomain s2" "bSaveSession s1 = bSaveSession s2"
    "g_strDefaultFolder s1 = g_strDefaultFolder s2"
    "g_strDefaultUsername s1 = g_strDefaultUsername s2"
    "g_vFieldsArray s1 = g_vFieldsArray s2" "vSessionInfo s1 = vSessionInfo s2"
  using arg_cong[OF assms, of strSessionName] arg_cong[OF assms, of strHostName]
    arg_cong[OF assms, of strProtocol] arg_cong[OF assms, of strPort]
    arg_cong[OF assms, of strUserName] arg_cong[OF assms, of strEmulation]
    arg_cong[OF assms, of strFolderOrig] arg_cong[OF assms, of strDescription]
    arg_cong[OF assms, of strLogonScript] arg_cong[OF assms, of strDomain]
    arg_cong[OF assms, of bSaveSession] arg_cong[OF assms, of g_strDefaultFolder]
    arg_cong[OF assms, of g_strDefaultUsername] arg_cong[OF assms, of g_vFieldsArray]
    arg_cong[OF assms, of vSessionInfo]
  by (simp_all only: core_reads)

lemma reject_line_core: "record_core (reject_line e s) = record_core s"
  by (simp add: reject_line_def record_core_def)

lemma validate_name_core:
  "fst (ValidateSessionFolderComponent env s1 c t) = fst (ValidateSessionFolderComponent env s2 c t)"
  "record_core (snd (ValidateSessionFolderComponent env s c t)) = record_core s"
  by (auto simp: ValidateSessionFolderComponent_def Let_def reject_line_core split: option.splits)

lemma validate_protocol_core:
  "fst (ValidateProtocolComponent env s1 p) = fst (ValidateProtocolComponent env s2 p)"
  "record_core (snd (ValidateProtocolComponent env s p)) = record_core s"
  by (auto simp: ValidateProtocolComponent_def reject_line_core)

lemma after_check_core:
  "record_core (after_check r) =
     (if fst r then record_core (snd r) else (record_core (snd r))\<lparr>bSaveSession := False\<rparr>)"
  by (simp add: after_check_def core_updates)

lemma finish_record_core:
  assumes "record_core s1 = record_core s2"
  shows "record_core (finish_record env s1) = record_core (finish_record env s2)"
proof -
  define a1 where "a1 = (if strSessionName s1 = [] then s1\<lparr>strSessionName := strHostName s1\<rparr> else s1)"
  define a2 where "a2 = (if strSessionName s2 = [] then s2\<lparr>strSessionName := strHostName s2\<rparr> else s2)"
  define b1 where "b1 = after_check (ValidateSessionFolderComponent env a1 (strSessionName a1) ''session'')"
  define b2 where "b2 = after_check (ValidateSessionFolderComponent env a2 (strSessionName a2) ''session'')"
  define c1 where "c1 = (if strFolderOrig b1 = [] then b1\<lparr>strFolderOrig := g_strDefaultFolder b1\<rparr> else b1)"
  define c2 where "c2 = (if strFolderOrig b2 = [] then b2\<lparr>strFolderOrig := g_strDefaultFolder b2\<rparr> else b2)"
  define d1 where "d1 = after_check (ValidateSessionFolderComponent env c1 (strFolderOrig c1) ''folder'')"
  define d2 where "d2 = after_check (ValidateSessionFolderComponent env c2 (strFolderOrig c2) ''folder'')"
  have f1: "finish_record env s1 = after_check (ValidateProtocolComponent env d1 (strProtocol d1))"
    by (simp add: finish_record_alt a1_def b1_def c1_def d1_def Let_def)
  have f2: "finish_record env s2 = after_check (ValidateProtocolComponent env d2 (strProtocol d2))"
    by (simp add: finish_record_alt a2_def b2_def c2_def d2_def Let_def)
  note r = core_eq_reads[OF assms]
  have a: "record_core a1 = record_core a2"
    unfolding a1_def a2_def using assms r(1,2) by (simp add: core_updates)
  note ra = core_eq_reads[OF a]
  have b: "record_core b1 = record_core b2"
    unfolding b1_def b2_def after_check_core validate_name_core(2)
    using a ra(1) validate_name_core(1)[of env a1 "strSessionName a2" "''session''" a2]
    by simp
  note rb = core_eq_reads[OF b]
  have c: "record_core c1 = record_core c2"
    unfolding c1_def c2_def using b rb(7,12) by (simp add: core_updates)
  note rc = core_eq_reads[OF c]
  have d: "record_core d1 = record_core d2"
    unfolding d1_def d2_def after_check_core validate_name_core(2)
    using c rc(7) validate_name_core(1)[of env c1 "strFolderOrig c2" "''folder''" c2]
    by simp
  note rd = core_eq_reads[OF d]
  show ?thesis
    unfolding f1 f2 after_check_core validate_protocol_core(2)
    using d rd(3) validate_protocol_core(1)[of env d1 "strProtocol d2" d2]
    by simp
qed

lemma normalize_line_core:
  assumes "record_core s1 = record_core s2"
  shows "same_outcome (normalize_line env s1) (normalize_line env s2)"
proof -
  note r = core_eq_reads[OF assms]
  let ?p1 = "process_fields env (s1\<lparr>bSaveSession := True\<rparr>) (zip (g_vFieldsArray s1) (vSessionInfo s1))"
  let ?p2 = "process_fields env (s2\<lparr>bSaveSession := True\<rparr>) (zip (g_vFieldsArray s2) (vSessionInfo s2))"
  have "record_core (s1\<lparr>bSaveSession := True\<rparr>) = record_core (s2\<lparr>bSaveSession := True\<rparr>)"
    using assms by (simp add: core_updates)
  from process_fields_core[OF this, of env "zip (g_vFieldsArray s1) (vSessionInfo s1)"]
  have p: "same_outcome ?p1 ?p2"
    using r(14,15) by simp
  show ?thesis
  proof (cases ?p1)
    case (Inl x)
    with p obtain y where "?p2 = Inl y" "fst x = fst y" "record_core (snd x) = record_core (snd y)"
      by (auto simp: same_outcome_def split: sum.splits)
    with Inl show ?thesis by (simp add: normalize_line_def same_outcome_def)
  next
    case (Inr a)
    with p obtain b where b: "?p2 = Inr b" "record_core a = record_core b"
      by (auto simp: same_outcome_def split: sum.splits)
    from finish_record_core[OF b(2), of env] Inr b(1) show ?thesis
      by (simp add: normalize_line_def same_outcome_def)
  qed
qed

lemma schema_view_frames:
  "schema_view (fields_frame s) = schema_view s"
  "schema_view (finish_frame s) = schema_view s"
  "schema_view (create_frame s) = schema_view s"
  by (simp_all add: schema_view_def fields_frame_def finish_frame_def create_frame_def)

lemma schema_view_steps:
  "schema_view (begin_iteration s l) = schema_view s"
  "schema_view (end_iteration s) = schema_view s"
  "schema_view (too_few_fields s) = schema_view s"
  "schema_view (too_many_fields s) = schema_view s"
  "schema_view (s\<lparr>vSessionInfo := x\<rparr>) = schema_view s"
  "schema_view (s\<lparr>bSaveSession := b\<rparr>) = schema_view s"
  by (simp_all add: schema_view_def begin_iteration_def end_iteration_def too_few_fields_def
        too_many_fields_def Let_def)

lemma schema_view_finish: "schema_view (finish_record env s) = schema_view s"
  using arg_cong[OF finish_record_frame[of env s], of schema_view]
  by (simp only: schema_view_frames)

lemma schema_view_fields:
  assumes "process_fields env s fvs = Inr s'"
  shows "schema_view s' = schema_view s"
  using arg_cong[OF process_fields_frame[OF assms], where f=schema_view]
  by (simp only: schema_view_frames)

lemma schema_view_create:
  assumes "create_session env s = Inr s'"
  shows "schema_view s' = schema_view s"
  using arg_cong[OF create_session_frame(1)[OF assms], where f=schema_view]
  by (simp only: schema_view_frames)

lemma schema_view_normalize:
  "normalize_line env s = Inr s' \<Longrightarrow> schema_view s' = schema_view s"
  by (auto simp: normalize_line_def schema_view_finish schema_view_steps
           split: sum.splits dest!: schema_view_fields)

lemma schema_view_data_line:
  "process_data_line env s = Inr s' \<Longrightarrow> schema_view s' = schema_view s"
  by (auto simp: process_data_line_def Let_def schema_view_steps
           split: if_splits sum.splits dest!: schema_view_normalize schema_view_create)

lemma data_round_keeps:
  assumes "bFoundHeader s" and "process_iteration env s l = Inr s'"
  shows "schema_view s' = schema_view s" and "strSessionName s' = []"
proof -
  from assms(1) have b: "bFoundHeader (begin_iteration s l)"
    by (simp add: begin_iteration_def)
  with assms(2) obtain u where u: "process_data_line env (begin_iteration s l) = Inr u"
    and s': "s' = end_iteration u"
    by (auto simp: process_iteration_def Let_def split: sum.splits)
  from schema_view_data_line[OF u] s' show "schema_view s' = schema_view s"
    by (simp add: schema_view_steps)
  from s' show "strSessionName s' = []" by (simp add: end_iteration_def)
qed

lemma prepare_line_core:
  assumes "schema_view s1 = schema_view s2" and "strSessionName s1 = strSessionName s2"
  shows "record_core (prepare_line s1 l) = record_core (prepare_line s2 l)"
  using assms
  by (intro import_state.equality)
     (simp_all add: prepare_line_def begin_iteration_def record_core_def schema_view_def Let_def)

lemma resolve_path_username:
  "strUserName (resolve_path s)
     = (if py_strip (strUserName s) = [] then g_strDefaultUsername s else strUserName s)"
  by (simp add: resolve_path_def Let_def)

lemma normalized_record_core:
  assumes "record_core a = record_core b"
  shows "normalized_record a = normalized_record b" and "bSaveSession a = bSaveSession b"
  using core_eq_reads[OF assms]
  by (simp_all add: normalized_record_def resolve_path_username)

lemma prepare_line_defaults:
  assumes "schema_defaults s1 = schema_defaults s2" and "strSessionName s1 = strSessionName s2"
  shows "record_core (prepare_line s1 l) = record_core (prepare_line s2 l)"
  using assms
  by (intro import_state.equality)
     (simp_all add: prepare_line_def begin_iteration_def record_core_def schema_defaults_def Let_def)

lemma data_line_equal:
  assumes "g_strDelimiter b \<noteq> []"
    and "u = b\<lparr>vSessionInfo := py_split (g_strLine b) (g_strDelimiter b)\<rparr>"
    and "length (py_split (g_strLine b) (g_strDelimiter b)) = length (g_vFieldsArray b)"
  shows "process_data_line env b =
           (case normalize_line env u of
              Inl a \<Rightarrow> Inl a
            | Inr w \<Rightarrow> if bSaveSession w then create_session env w else Inr w)"
  using assms(1,3) unfolding process_data_line_def Let_def assms(2) by simp

lemma data_line_normalizes:
  assumes "g_strDelimiter s \<noteq> []"
    and "length (py_split (py_strip_chars l [CHR 0x0D, CHR 0x0A]) (g_strDelimiter s))
           = length (g_vFieldsArray s)"
  shows "process_data_line env (begin_iteration s l) =
           (case normalize_line env (prepare_line s l) of
              Inl a \<Rightarrow> Inl a
            | Inr u \<Rightarrow> if bSaveSession u then create_session env u else Inr u)"
proof -
  let ?b = "begin_iteration s l"
  have g: "g_strLine ?b = py_strip_chars l [CHR 0x0D, CHR 0x0A]" "g_strDelimiter ?b = g_strDelimiter s"
    "g_vFieldsArray ?b = g_vFieldsArray s"
    by (simp_all add: begin_iteration_def)
  have p: "prepare_line s l = ?b\<lparr>vSessionInfo := py_split (g_strLine ?b) (g_strDelimiter ?b)\<rparr>"
    by (simp add: prepare_line_def Let_def)
  have d: "g_strDelimiter ?b \<noteq> []" using assms(1) g(2) by simp
  have n: "length (py_split (g_strLine ?b) (g_strDelimiter ?b)) = length (g_vFieldsArray ?b)"
    using assms(2) g by simp
  from data_line_equal[OF d p n] show ?thesis .
qed

lemma round_clears_session_name:
  assumes "process_iteration env s l = Inr s'"
  shows "strSessionName s' = []"
proof (cases "bFoundHeader s")
  case True
  from data_round_keeps(2)[OF True assms] show ?thesis .
next
  case False
  then have "\<not> bFoundHeader (begin_iteration s l)" by (simp add: begin_iteration_def)
  with assms obtain u where "s' = end_iteration u"
    by (auto simp: process_iteration_def Let_def split: sum.splits)
  then show ?thesis by (simp add: end_iteration_def)
qed

lemma normalize_line_same:
  assumes "record_core u1 = record_core u2"
  shows "case normalize_line env u1 of
         Inr a \<Rightarrow> (\<exists>b. normalize_line env u2 = Inr b
                       \<and> bSaveSession a = bSaveSession b
                       \<and> normalized_record a = normalized_record b)
       | Inl x \<Rightarrow> (\<exists>b. normalize_line env u2 = Inl (fst x, b))"
proof -
  from normalize_line_core[OF assms, of env]
  have so: "same_outcome (normalize_line env u1) (normalize_line env u2)" .
  show ?thesis
  proof (cases "normalize_line env u1")
    case (Inr a)
    with so obtain b where b: "normalize_line env u2 = Inr b" and c: "record_core a = record_core b"
      by (cases "normalize_line env u2") (simp_all add: same_outcome_def)
    from normalized_record_core[OF c] b Inr show ?thesis by simp
  next
    case (Inl x)
    with so obtain y where y: "normalize_line env u2 = Inl y" "fst x = fst y"
      by (cases "normalize_line env u2") (simp_all add: same_outcome_def)
    then have "normalize_line env u2 = Inl (fst x, snd y)" by simp
    with Inl show ?thesis by auto
  qed
qed

text \<open>
  C9. The record a data line is normalized to depends on the text of the line, the
  fields of the header, the delimiter and the three recorded defaults only: from two
  states that a round of the loop left behind and that agree on these, whatever their
  counters, messages, line numbers and stores, normalization of the same line either
  stops both times with the same unknown field, or accepts or rejects both times with the
  same session name, host name, protocol, port, user name, emulation, folder,
  description, logon script and domain. A round of the loop over a data line leaves the
  fields, the delimiter and the defaults as they are, so that normalizing a line again
  later in the run gives the same record. The state that is normalized is the one the
  loop passes on when the line has as many values as the header has fields.
\<close>

theorem normalization_pure:
  "(process_iteration env pa la = Inr sa \<and> process_iteration env pb lb = Inr sb
      \<and> schema_defaults sa = schema_defaults sb \<longrightarrow>
      (case normalize_line env (prepare_line sa l) of
         Inr a \<Rightarrow> (\<exists>b. normalize_line env (prepare_line sb l) = Inr b
                       \<and> bSaveSession a = bSaveSession b
                       \<and> normalized_record a = normalized_record b)
       | Inl x \<Rightarrow> (\<exists>b. normalize_line env (prepare_line sb l) = Inl (fst x, b))))
   \<and> (bFoundHeader pa \<and> process_iteration env pa la = Inr sa \<longrightarrow>
        schema_defaults sa = schema_defaults pa)
   \<and> (g_strDelimiter sa \<noteq> []
        \<and> length (py_split (py_strip_chars l [CHR 0x0D, CHR 0x0A]) (g_strDelimiter sa))
            = length (g_vFieldsArray sa) \<longrightarrow>
        process_data_line env (begin_iteration sa l) =
           (case normalize_line env (prepare_line sa l) of
              Inl a \<Rightarrow> Inl a
            | Inr u \<Rightarrow> if bSaveSession u then create_session env u else Inr u))"
proof (intro conjI impI)
  assume h: "process_iteration env pa la = Inr sa \<and> process_iteration env pb lb = Inr sb
      \<and> schema_defaults sa = schema_defaults sb"
  then have "strSessionName sa = []" "strSessionName sb = []"
    using round_clears_session_name by blast+
  then have n: "strSessionName sa = strSessionName sb" by simp
  from h have d: "schema_defaults sa = schema_defaults sb" by blast
  have "record_core (prepare_line sa l) = record_core (prepare_line sb l)"
    using d n by (rule prepare_line_defaults)
  from normalize_line_same[OF this]
  show "case normalize_line env (prepare_line sa l) of
         Inr a \<Rightarrow> (\<exists>b. normalize_line env (prepare_line sb l) = Inr b
                       \<and> bSaveSession a = bSaveSession b
                       \<and> normalized_record a = normalized_record b)
       | Inl x \<Rightarrow> (\<exists>b. normalize_line env (prepare_line sb l) = Inl (fst x, b))" .
next
  assume h: "bFoundHeader pa \<and> process_iteration env pa la = Inr sa"
  then have "schema_view sa = schema_view pa"
    using data_round_keeps(1) by blast
  then show "schema_defaults sa = schema_defaults pa"
    by (simp add: schema_view_def schema_defaults_def)
next
  assume "g_strDelimiter sa \<noteq> []
        \<and> length (py_split (py_strip_chars l [CHR 0x0D, CHR 0x0A]) (g_strDelimiter sa))
            = length (g_vFieldsArray sa)"
  then show "process_data_line env (begin_iteration sa l) =
           (case normalize_line env (prepare_line sa l) of
              Inl a \<Rightarrow> Inl a
            | Inr u \<Rightarrow> if bSaveSession u then create_session env u else Inr u)"
    using data_line_normalizes by blast
qed

theorem normalization_pure_witness:
  "normalized_record (projr (normalize_line (windows_env [])
        (prepare_line (after_round (example_line [''hostname'', ''protocol''] []) ''a,ssh2'')
           ''h2,telnet'')))
     = [''h2'', ''h2'', ''Telnet'', [], [], [], [], [], [], []]
   \<and> (\<exists>b. normalize_line (windows_env []) (prepare_line (after_round later_state ''bad'') ''h2,telnet'')
             = Inr b
          \<and> bSaveSession b
          \<and> normalized_record b = [''h2'', ''h2'', ''Telnet'', [], [], [], [], [], [], []])
   \<and> g_strErrors (after_round later_state ''bad'')
        \<noteq> g_strErrors (after_round (example_line [''hostname'', ''protocol''] []) ''a,ssh2'')
   \<and> sessions (after_round (example_line [''hostname'', ''protocol''] []) ''a,ssh2'') ''a'' \<noteq> None
   \<and> schema_defaults (after_round (example_line [''hostname'', ''protocol''] []) ''a,ssh2'')
        = schema_defaults (example_line [''hostname'', ''protocol''] [])
   \<and> \<not> isl (process_data_line (windows_env [])
              (begin_iteration (after_round (example_line [''hostname'', ''protocol''] []) ''a,ssh2'')
                 ''h2,telnet''))"
proof -
  let ?e = "windows_env []"
  let ?pa = "example_line [''hostname'', ''protocol''] []"
  let ?sa = "after_round ?pa ''a,ssh2''"
  let ?sb = "after_round later_state ''bad''"
  let ?l = "''h2,telnet''"
  let ?a = "projr (normalize_line ?e (prepare_line ?sa ?l))"
  have "\<not> isl (process_iteration ?e ?pa ''a,ssh2'')" by code_simp
  then have ra: "process_iteration ?e ?pa ''a,ssh2'' = Inr ?sa" by (simp add: after_round_def)
  have "\<not> isl (process_iteration ?e later_state ''bad'')" by code_simp
  then have rb: "process_iteration ?e later_state ''bad'' = Inr ?sb" by (simp add: after_round_def)
  have d: "schema_defaults ?sa = schema_defaults ?sb" by code_simp
  have "\<not> isl (normalize_line ?e (prepare_line ?sa ?l))" by code_simp
  then obtain a where na: "normalize_line ?e (prepare_line ?sa ?l) = Inr a"
    by (cases "normalize_line ?e (prepare_line ?sa ?l)") simp_all
  have va0: "normalized_record ?a = [''h2'', ''h2'', ''Telnet'', [], [], [], [], [], [], []]"
    and sva0: "bSaveSession ?a"
    by code_simp+
  have va: "normalized_record a = [''h2'', ''h2'', ''Telnet'', [], [], [], [], [], [], []]"
    using va0 unfolding na by (simp only: sum.sel)
  have sva: "bSaveSession a"
    using sva0 unfolding na by (simp only: sum.sel)
  have c3: "g_strErrors ?sb \<noteq> g_strErrors ?sa" by code_simp
  have c4: "sessions ?sa ''a'' \<noteq> None" by code_simp
  have fh: "bFoundHeader ?pa" by code_simp
  have len: "g_strDelimiter ?sa \<noteq> []
        \<and> length (py_split (py_strip_chars ?l [CHR 0x0D, CHR 0x0A]) (g_strDelimiter ?sa))
            = length (g_vFieldsArray ?sa)"
    by code_simp
  have cr0: "\<not> isl (create_session ?e ?a)" by code_simp
  have cr: "\<not> isl (create_session ?e a)"
    by (rule cr0[unfolded na sum.sel])
  note t = normalization_pure[where env = ?e and pa = ?pa and la = "''a,ssh2''" and sa = ?sa
      and pb = later_state and lb = "''bad''" and sb = ?sb and l = ?l]
  note t1 = t[THEN conjunct1, THEN mp, OF conjI[OF ra conjI[OF rb d]]]
  note t2 = t[THEN conjunct2, THEN conjunct1, THEN mp, OF conjI[OF fh ra]]
  note t3 = t[THEN conjunct2, THEN conjunct2, THEN mp, OF len]
  from t1 have "\<exists>b. normalize_line ?e (prepare_line ?sb ?l) = Inr b
                       \<and> bSaveSession a = bSaveSession b
                       \<and> normalized_record a = normalized_record b"
    unfolding na by (simp only: sum.case)
  then obtain b where b: "normalize_line ?e (prepare_line ?sb ?l) = Inr b"
    "bSaveSession a = bSaveSession b" "normalized_record a = normalized_record b" by blast
  from b(2) sva have sb: "bSaveSession b" by (simp only:)
  from b(3) va have rb': "normalized_record b = [''h2'', ''h2'', ''Telnet'', [], [], [], [], [], [], []]"
    by (simp only:)
  from b(1) sb rb' have c2: "\<exists>b. normalize_line ?e (prepare_line ?sb ?l) = Inr b \<and> bSaveSession b
         \<and> normalized_record b = [''h2'', ''h2'', ''Telnet'', [], [], [], [], [], [], []]"
    by (intro exI[of _ b] conjI)
  have pd: "process_data_line ?e (begin_iteration ?sa ?l) = create_session ?e a"
    using t3 unfolding na by (simp only: sum.case sva[THEN eqTrueI] if_True)
  have c6: "\<not> isl (process_data_line ?e (begin_iteration ?sa ?l))"
    unfolding pd by (rule cr)
  show ?thesis
    by (intro conjI) (rule va0, rule c2, rule c3, rule c4, rule t2, rule c6)
qed

end
